theory Spec2Isabelle
  imports Main "HOL-Library.Word"
begin

section \<open>Go values and the library functions the pipeline calls\<close>

text \<open>
  A cell value is a Go \<open>interface{}\<close>. The readers store \<open>nil\<close>, \<open>int\<close>, \<open>float64\<close>,
  \<open>bool\<close> and \<open>string\<close> only. A \<open>float64\<close> is kept as its 64 bits; parsing and printing
  floats belong to Go's \<open>strconv\<close> and \<open>fmt\<close> and are taken as parameters where the code
  calls them.
\<close>

type_synonym float64 = "64 word"

datatype gvalue = VNil | VInt int | VFloat float64 | VBool bool | VString string

datatype go_error =
    ErrSyntax string string
  | ErrRange string string
  | ErrIO string
  | ErrLocated string nat string go_error

datatype panic = IndexOutOfRange | NilDereference

datatype failure = Error go_error | Panic panic

subsection \<open>strings\<close>

definition HasPrefix :: "string \<Rightarrow> string \<Rightarrow> bool" where
  "HasPrefix s p = (take (length p) s = p)"

definition TrimPrefix :: "string \<Rightarrow> string \<Rightarrow> string" where
  "TrimPrefix s p = (if HasPrefix s p then drop (length p) s else s)"

definition HasSuffix :: "string \<Rightarrow> string \<Rightarrow> bool" where
  "HasSuffix s p = (length p \<le> length s \<and> drop (length s - length p) s = p)"

definition TrimSuffix :: "string \<Rightarrow> string \<Rightarrow> string" where
  "TrimSuffix s p = (if HasSuffix s p then take (length s - length p) s else s)"

text \<open>\<open>strings.Split\<close> with a separator of one byte: never an empty list.\<close>

fun Split :: "string \<Rightarrow> char \<Rightarrow> string list" where
  "Split [] sep = [[]]"
| "Split (c # cs) sep =
     (if c = sep then [] # Split cs sep
      else (case Split cs sep of p # ps \<Rightarrow> (c # p) # ps | [] \<Rightarrow> [[c]]))"

text \<open>
  \<open>strings.TrimSpace\<close> removes the leading and trailing white space of Unicode: the six
  ASCII ones and the runes U+0085, U+00A0, U+1680, U+2000 to U+200A, U+2028, U+2029,
  U+202F, U+205F and U+3000, here in their UTF-8 encodings.
\<close>

definition asciiSpace :: "char \<Rightarrow> bool" where
  "asciiSpace c = (c = CHR 0x09 \<or> c = CHR 0x0A \<or> c = CHR 0x0B \<or> c = CHR 0x0C
                   \<or> c = CHR 0x0D \<or> c = CHR 0x20)"

definition unicodeSpaces :: "string list" where
  "unicodeSpaces =
     [[CHR 0xC2, CHR 0x85], [CHR 0xC2, CHR 0xA0], [CHR 0xE1, CHR 0x9A, CHR 0x80],
      [CHR 0xE2, CHR 0x80, CHR 0x80], [CHR 0xE2, CHR 0x80, CHR 0x81],
      [CHR 0xE2, CHR 0x80, CHR 0x82], [CHR 0xE2, CHR 0x80, CHR 0x83],
      [CHR 0xE2, CHR 0x80, CHR 0x84], [CHR 0xE2, CHR 0x80, CHR 0x85],
      [CHR 0xE2, CHR 0x80, CHR 0x86], [CHR 0xE2, CHR 0x80, CHR 0x87],
      [CHR 0xE2, CHR 0x80, CHR 0x88], [CHR 0xE2, CHR 0x80, CHR 0x89],
      [CHR 0xE2, CHR 0x80, CHR 0x8A], [CHR 0xE2, CHR 0x80, CHR 0xA8],
      [CHR 0xE2, CHR 0x80, CHR 0xA9], [CHR 0xE2, CHR 0x80, CHR 0xAF],
      [CHR 0xE2, CHR 0x81, CHR 0x9F], [CHR 0xE3, CHR 0x80, CHR 0x80]]"

definition leadingSpace :: "string \<Rightarrow> nat" where
  "leadingSpace s =
     (case s of [] \<Rightarrow> 0
      | c # cs \<Rightarrow> if asciiSpace c then 1
                 else (case filter (HasPrefix s) unicodeSpaces of [] \<Rightarrow> 0 | w # ws \<Rightarrow> length w))"

definition trailingSpace :: "string \<Rightarrow> nat" where
  "trailingSpace s =
     (if s = [] then 0
      else if asciiSpace (last s) then 1
      else (case filter (HasSuffix s) unicodeSpaces of [] \<Rightarrow> 0 | w # ws \<Rightarrow> length w))"

function TrimLeftSpace :: "string \<Rightarrow> string" where
  "TrimLeftSpace s =
     (if leadingSpace s = 0 then s else TrimLeftSpace (drop (leadingSpace s) s))"
  by pat_completeness auto
termination
proof (relation "measure length")
  show "wf (measure length)" by simp
next
  fix s :: string
  assume "leadingSpace s \<noteq> 0"
  moreover from this have "s \<noteq> []" by (auto simp: leadingSpace_def)
  ultimately show "(drop (leadingSpace s) s, s) \<in> measure length" by simp
qed

function TrimRightSpace :: "string \<Rightarrow> string" where
  "TrimRightSpace s =
     (if trailingSpace s = 0 then s
      else TrimRightSpace (take (length s - trailingSpace s) s))"
  by pat_completeness auto
termination
proof (relation "measure length")
  show "wf (measure length)" by simp
next
  fix s :: string
  assume "trailingSpace s \<noteq> 0"
  moreover from this have "s \<noteq> []" by (auto simp: trailingSpace_def)
  ultimately show "(take (length s - trailingSpace s) s, s) \<in> measure length" by simp
qed

declare TrimLeftSpace.simps [simp del] TrimRightSpace.simps [simp del]

definition TrimSpace :: "string \<Rightarrow> string" where
  "TrimSpace s = TrimRightSpace (TrimLeftSpace s)"

text \<open>
  \<open>strings.ToLower\<close>. The code compares its result with ASCII literals only, so what
  matters is which runes become an ASCII letter: the ASCII capitals, U+0130 (to \<open>i\<close>)
  and U+212A (to \<open>k\<close>). Every other rune beyond ASCII stays beyond ASCII and is kept.
\<close>

fun ToLower :: "string \<Rightarrow> string" where
  "ToLower [] = []"
| "ToLower (c # cs) =
     (if HasPrefix (c # cs) [CHR 0xC4, CHR 0xB0] then CHR ''i'' # ToLower (drop 1 cs)
      else if HasPrefix (c # cs) [CHR 0xE2, CHR 0x84, CHR 0xAA] then CHR ''k'' # ToLower (drop 2 cs)
      else if 65 \<le> (of_char c :: nat) \<and> (of_char c :: nat) \<le> 90
        then char_of ((of_char c :: nat) + 32) # ToLower cs
      else c # ToLower cs)"

subsection \<open>strconv\<close>

definition isDigit :: "char \<Rightarrow> bool" where
  "isDigit c = (48 \<le> (of_char c :: nat) \<and> (of_char c :: nat) \<le> 57)"

definition digitVal :: "char \<Rightarrow> nat" where
  "digitVal c = (of_char c :: nat) - 48"

datatype scan = ScanOk nat | ScanSyntax | ScanRange

text \<open>
  The digit loop of \<open>strconv.ParseUint\<close> in base 10 at 64 bits: a byte that is no digit
  is a syntax error, a value past \<open>2^64 - 1\<close> a range error, whichever comes first.
\<close>

fun scanDigits :: "nat \<Rightarrow> string \<Rightarrow> scan" where
  "scanDigits n [] = ScanOk n"
| "scanDigits n (c # cs) =
     (if \<not> isDigit c then ScanSyntax
      else if n * 10 + digitVal c > 2 ^ 64 - 1 then ScanRange
      else scanDigits (n * 10 + digitVal c) cs)"

text \<open>
  \<open>strconv.Atoi\<close> on a 64-bit platform. It returns a value with every error: 0 with a
  syntax error, the nearest bound with a range error.
\<close>

definition Atoi :: "string \<Rightarrow> int \<times> go_error option" where
  "Atoi s =
     (let neg = HasPrefix s ''-'' \<and> s \<noteq> [];
          s0 = (if s \<noteq> [] \<and> (hd s = CHR ''+'' \<or> hd s = CHR ''-'') then tl s else s)
      in if s0 = [] then (0, Some (ErrSyntax ''Atoi'' s))
         else (case scanDigits 0 s0 of
                 ScanSyntax \<Rightarrow> (0, Some (ErrSyntax ''Atoi'' s))
               | ScanRange \<Rightarrow>
                   (if neg then - (2 ^ 63) else 2 ^ 63 - 1, Some (ErrRange ''Atoi'' s))
               | ScanOk un \<Rightarrow>
                   if \<not> neg \<and> un \<ge> 2 ^ 63 then (2 ^ 63 - 1, Some (ErrRange ''Atoi'' s))
                   else if neg \<and> un > 2 ^ 63 then (- (2 ^ 63), Some (ErrRange ''Atoi'' s))
                   else (if neg then - int un else int un, None)))"

text \<open>\<open>strconv.ParseBool\<close>: twelve literals, every other text is a syntax error.\<close>

definition ParseBool :: "string \<Rightarrow> bool \<times> go_error option" where
  "ParseBool str =
     (if str \<in> {''1'', ''t'', ''T'', ''TRUE'', ''true'', ''True''} then (True, None)
      else if str \<in> {''0'', ''f'', ''F'', ''FALSE'', ''false'', ''False''} then (False, None)
      else (False, Some (ErrSyntax ''ParseBool'' str)))"

text \<open>\<open>strconv.ParseFloat\<close> at 64 bits is a parameter of this type.\<close>

type_synonym parse_float = "string \<Rightarrow> float64 \<times> go_error option"

section \<open>The data model (package model)\<close>

record RefInfo =
  ref_Sheet :: string
  ref_Column :: string

record ColumnInfo =
  col_Name :: string
  col_Type :: string
  col_Comment :: string
  col_Required :: bool
  col_Default :: gvalue
  col_Options :: "string list"
  col_Ref :: "RefInfo option"

type_synonym row = "string \<rightharpoonup> gvalue"

record DataSheet =
  sheet_Name :: string
  sheet_Columns :: "ColumnInfo list"
  sheet_Rows :: "row list"
  sheet_Meta :: "string \<rightharpoonup> gvalue"

record ConvertResult =
  FileName :: string
  Content :: string
  Format :: string

record ErrorInfo =
  err_Sheet :: string
  err_Row :: nat
  err_Column :: string
  err_Msg :: string

section \<open>Readers (package reader)\<close>

subsection \<open>convertValue\<close>

definition CSV_convertValue :: "parse_float \<Rightarrow> string \<Rightarrow> string \<Rightarrow> gvalue \<times> go_error option" where
  "CSV_convertValue ParseFloat val dataType =
     (if dataType = ''int'' \<or> dataType = ''integer''
        then (case Atoi val of (n, e) \<Rightarrow> (VInt n, e))
      else if dataType = ''float'' \<or> dataType = ''double'' \<or> dataType = ''number''
        then (case ParseFloat val of (x, e) \<Rightarrow> (VFloat x, e))
      else if dataType = ''bool'' \<or> dataType = ''boolean''
        then (case ParseBool val of (b, e) \<Rightarrow> (VBool b, e))
      else if dataType = ''string'' then (VString val, None)
      else (VString val, None))"

definition Excel_convertValue :: "parse_float \<Rightarrow> string \<Rightarrow> string \<Rightarrow> gvalue \<times> go_error option" where
  "Excel_convertValue ParseFloat val dataType =
     (let t = ToLower dataType in
      if t = ''int'' \<or> t = ''integer''
        then (case Atoi val of (n, e) \<Rightarrow> (VInt n, e))
      else if t = ''float'' \<or> t = ''double'' \<or> t = ''number''
        then (case ParseFloat val of (x, e) \<Rightarrow> (VFloat x, e))
      else if t = ''bool'' \<or> t = ''boolean''
        then (let v = ToLower val in
              if v = ''true'' \<or> v = ''1'' \<or> v = ''yes'' then (VBool True, None)
              else (VBool False, None))
      else if t = ''string'' then (VString val, None)
      else (VString val, None))"

subsection \<open>The two reader variants\<close>

datatype reader = CSVReader | ExcelReader

definition convertValue :: "reader \<Rightarrow> parse_float \<Rightarrow> string \<Rightarrow> string \<Rightarrow> gvalue \<times> go_error option" where
  "convertValue r ParseFloat val dataType =
     (case r of CSVReader \<Rightarrow> CSV_convertValue ParseFloat val dataType
              | ExcelReader \<Rightarrow> Excel_convertValue ParseFloat val dataType)"

subsection \<open>parseCommentMetadata\<close>

text \<open>The five directive keywords, as the UTF-8 bytes of the source's literals.\<close>

definition kw_required :: string where
  "kw_required = [CHR 0xE5, CHR 0xBF, CHR 0x85, CHR 0xE5, CHR 0xA1, CHR 0xAB]"

definition kw_optional :: string where
  "kw_optional = [CHR 0xE9, CHR 0x80, CHR 0x89, CHR 0xE5, CHR 0xA1, CHR 0xAB]"

definition kw_default :: string where
  "kw_default = [CHR 0xE9, CHR 0xBB, CHR 0x98, CHR 0xE8, CHR 0xAE, CHR 0xA4, CHR 0x3A]"

definition kw_options :: string where
  "kw_options = [CHR 0xE9, CHR 0x80, CHR 0x89, CHR 0xE9, CHR 0xA1, CHR 0xB9, CHR 0x3A]"

definition kw_ref :: string where
  "kw_ref = [CHR 0xE5, CHR 0xBC, CHR 0x95, CHR 0xE7, CHR 0x94, CHR 0xA8, CHR 0x3A]"

text \<open>
  The body of the loop over the parts of an annotation. Both readers have the same text;
  they differ in the \<open>convertValue\<close> it calls. The error of \<open>convertValue\<close> is dropped
  (\<open>val, _ := r.convertValue(...)\<close>) and the value returned with it is stored.
\<close>

definition parseDirective :: "reader \<Rightarrow> parse_float \<Rightarrow> ColumnInfo \<Rightarrow> string \<Rightarrow> ColumnInfo" where
  "parseDirective r ParseFloat col part0 =
     (let part = TrimSpace part0 in
      if HasPrefix part kw_required then col\<lparr>col_Required := True\<rparr>
      else if HasPrefix part kw_optional then col\<lparr>col_Required := False\<rparr>
      else if HasPrefix part kw_default then
        (let defaultVal = TrimPrefix part kw_default;
             val = fst (convertValue r ParseFloat defaultVal (col_Type col))
         in col\<lparr>col_Default := val\<rparr>)
      else if HasPrefix part kw_options then
        col\<lparr>col_Options := Split (TrimPrefix part kw_options) (CHR '','')\<rparr>
      else if HasPrefix part kw_ref then
        (let refParts = Split (TrimPrefix part kw_ref) (CHR ''.'') in
         if length refParts = 2
           then col\<lparr>col_Ref := Some \<lparr>ref_Sheet = refParts ! 0, ref_Column = refParts ! 1\<rparr>\<rparr>
         else col)
      else col)"

definition parseCommentMetadata :: "reader \<Rightarrow> parse_float \<Rightarrow> ColumnInfo \<Rightarrow> string \<Rightarrow> ColumnInfo" where
  "parseCommentMetadata r ParseFloat col comment =
     foldl (parseDirective r ParseFloat) col (Split comment (CHR ''|''))"

subsection \<open>Columns and data rows of one sub-table\<close>

text \<open>
  The loop over the header row. \<open>commentRow[i]\<close> and \<open>typeRow[i]\<close> index with the
  header's position; past the end of a shorter row Go panics.
\<close>

fun parseColumns ::
  "reader \<Rightarrow> parse_float \<Rightarrow> string list \<Rightarrow> string list \<Rightarrow> nat \<Rightarrow> string list
     \<Rightarrow> ColumnInfo list \<Rightarrow> failure + ColumnInfo list" where
  "parseColumns r pf typeRow commentRow i [] columns = Inr columns"
| "parseColumns r pf typeRow commentRow i (name # headerRow) columns =
     (if name = [] then parseColumns r pf typeRow commentRow (Suc i) headerRow columns
      else if length commentRow \<le> i \<or> length typeRow \<le> i then Inl (Panic IndexOutOfRange)
      else parseColumns r pf typeRow commentRow (Suc i) headerRow
             (columns @
              [parseCommentMetadata r pf
                 \<lparr>col_Name = name, col_Type = typeRow ! i, col_Comment = commentRow ! i,
                  col_Required = True, col_Default = VNil, col_Options = [], col_Ref = None\<rparr>
                 (commentRow ! i)]))"

text \<open>
  One data row: \<open>i\<close> is the position in \<open>columns\<close>. A cell that is missing or empty
  takes the column's default; any other is converted, and an error ends the reading.
\<close>

fun readRow ::
  "reader \<Rightarrow> parse_float \<Rightarrow> string list \<Rightarrow> nat \<Rightarrow> ColumnInfo list \<Rightarrow> row
     \<Rightarrow> (string \<times> go_error) + row" where
  "readRow r pf line i [] rowData = Inr rowData"
| "readRow r pf line i (col # columns) rowData =
     (let cellValue = (if i < length line then line ! i else []) in
      if cellValue = [] then readRow r pf line (Suc i) columns (rowData(col_Name col \<mapsto> col_Default col))
      else (case convertValue r pf cellValue (col_Type col) of
              (v, Some err) \<Rightarrow> Inl (col_Name col, err)
            | (v, None) \<Rightarrow> readRow r pf line (Suc i) columns (rowData(col_Name col \<mapsto> v))))"

text \<open>
  The loop over the data rows, from \<open>rowIndex = 3\<close>. The CSV reader returns the error
  of \<open>convertValue\<close> as it is; the Excel reader wraps it with sheet, row and column.
\<close>

fun readRows ::
  "reader \<Rightarrow> parse_float \<Rightarrow> string \<Rightarrow> ColumnInfo list \<Rightarrow> nat \<Rightarrow> string list list \<Rightarrow> row list
     \<Rightarrow> go_error + row list" where
  "readRows r pf sheetName columns rowIndex [] rows = Inr rows"
| "readRows r pf sheetName columns rowIndex (line # lines) rows =
     (if line = [] \<or> hd line = [] then readRows r pf sheetName columns (Suc rowIndex) lines rows
      else (case readRow r pf line 0 columns Map.empty of
              Inl (c, err) \<Rightarrow>
                (case r of CSVReader \<Rightarrow> Inl err
                         | ExcelReader \<Rightarrow> Inl (ErrLocated sheetName (rowIndex + 1) c err))
            | Inr rowData \<Rightarrow> readRows r pf sheetName columns (Suc rowIndex) lines (rows @ [rowData])))"

text \<open>
  What both \<open>ReadSheet\<close> bodies do with the rows of a sub-table once they are in memory.
  \<open>None\<close> is the nil sheet returned, with a nil error, for fewer than three rows.
\<close>

definition sheetOfRows ::
  "reader \<Rightarrow> parse_float \<Rightarrow> string \<Rightarrow> string list list \<Rightarrow> failure + DataSheet option" where
  "sheetOfRows r pf tableName allLines =
     (if length allLines < 3 then Inr None
      else (case parseColumns r pf (allLines ! 1) (allLines ! 2) 0 (allLines ! 0) [] of
              Inl f \<Rightarrow> Inl f
            | Inr columns \<Rightarrow>
                (case readRows r pf tableName columns 3 (drop 3 allLines) [] of
                   Inl err \<Rightarrow> Inl (Error err)
                 | Inr rows \<Rightarrow>
                     Inr (Some \<lparr>sheet_Name = tableName, sheet_Columns = columns,
                                sheet_Rows = rows, sheet_Meta = Map.empty\<rparr>))))"

subsection \<open>CSVReader\<close>

text \<open>
  \<open>files path\<close> is what \<open>os.Open\<close> and \<open>csv.Reader.ReadAll\<close> give for the file: an
  error or its records.
\<close>

definition CSV_tableName :: "string \<Rightarrow> string" where
  "CSV_tableName filePath =
     TrimSuffix (TrimSuffix (last (Split filePath (CHR ''/''))) ''.csv'') ''.CSV''"

definition CSV_ReadSheet ::
  "parse_float \<Rightarrow> (string \<Rightarrow> go_error + string list list) \<Rightarrow> string \<Rightarrow> string
     \<Rightarrow> failure + DataSheet option" where
  "CSV_ReadSheet pf files filePath sheetName =
     (case files filePath of
        Inl err \<Rightarrow> Inl (Error err)
      | Inr allLines \<Rightarrow> sheetOfRows CSVReader pf (CSV_tableName filePath) allLines)"

text \<open>The result is a \<open>[]*model.DataSheet\<close>: a list whose entries may be nil.\<close>

definition CSV_ReadAll ::
  "parse_float \<Rightarrow> (string \<Rightarrow> go_error + string list list) \<Rightarrow> string
     \<Rightarrow> failure + DataSheet option list" where
  "CSV_ReadAll pf files filePath =
     (case CSV_ReadSheet pf files filePath [] of
        Inl f \<Rightarrow> Inl f
      | Inr sheet \<Rightarrow> Inr [sheet])"

subsection \<open>ExcelReader\<close>

text \<open>An opened workbook: its sheet names in order, and the rows of each sheet.\<close>

record workbook =
  GetSheetList :: "string list"
  GetRows :: "string \<Rightarrow> go_error + string list list"

definition Excel_readSheet :: "parse_float \<Rightarrow> workbook \<Rightarrow> string \<Rightarrow> failure + DataSheet option" where
  "Excel_readSheet pf f sheetName =
     (case GetRows f sheetName of
        Inl err \<Rightarrow> Inl (Error err)
      | Inr rows \<Rightarrow> sheetOfRows ExcelReader pf sheetName rows)"

fun Excel_readAllSheets ::
  "parse_float \<Rightarrow> workbook \<Rightarrow> string list \<Rightarrow> DataSheet option list
     \<Rightarrow> failure + DataSheet option list" where
  "Excel_readAllSheets pf f [] sheets = Inr sheets"
| "Excel_readAllSheets pf f (sheetName # sheetNames) sheets =
     (if HasPrefix sheetName ''_'' then Excel_readAllSheets pf f sheetNames sheets
      else (case Excel_readSheet pf f sheetName of
              Inl e \<Rightarrow> Inl e
            | Inr None \<Rightarrow> Excel_readAllSheets pf f sheetNames sheets
            | Inr (Some sheet) \<Rightarrow> Excel_readAllSheets pf f sheetNames (sheets @ [Some sheet])))"

definition Excel_ReadAll ::
  "parse_float \<Rightarrow> (string \<Rightarrow> go_error + workbook) \<Rightarrow> string \<Rightarrow> failure + DataSheet option list" where
  "Excel_ReadAll pf files filePath =
     (case files filePath of
        Inl err \<Rightarrow> Inl (Error err)
      | Inr f \<Rightarrow> Excel_readAllSheets pf f (GetSheetList f) [])"

definition Excel_ReadSheet ::
  "parse_float \<Rightarrow> (string \<Rightarrow> go_error + workbook) \<Rightarrow> string \<Rightarrow> string
     \<Rightarrow> failure + DataSheet option" where
  "Excel_ReadSheet pf files filePath sheetName =
     (case files filePath of
        Inl err \<Rightarrow> Inl (Error err)
      | Inr f \<Rightarrow>
          if sheetName = [] then
            (case GetSheetList f of
               [] \<Rightarrow> Inr None
             | first # rest \<Rightarrow> Excel_readSheet pf f first)
          else Excel_readSheet pf f sheetName)"

text \<open>A stand-in for \<open>strconv.ParseFloat\<close> in closed examples that parse no float.\<close>

definition noFloat :: parse_float where
  "noFloat s = (0, Some (ErrSyntax ''ParseFloat'' s))"

section \<open>Table transformer (cmd/main.go, applyCombineConfig)\<close>

record CombineSheet =
  SourceSheets :: "string list"
  KeyColumn :: string
  OutputName :: string

text \<open>\<open>sheetMap\<close>: from a table's name to the table; a later table of the same name wins.\<close>

definition buildSheetMap :: "DataSheet list \<Rightarrow> (string \<rightharpoonup> DataSheet)" where
  "buildSheetMap sheets = foldl (\<lambda>sheetMap sheet. sheetMap(sheet_Name sheet \<mapsto> sheet)) Map.empty sheets"

text \<open>
  \<open>processedSheets\<close> is a \<open>map[string]bool\<close>; reading a key it does not hold gives
  \<open>false\<close>.
\<close>

definition isProcessed :: "(string \<rightharpoonup> bool) \<Rightarrow> string \<Rightarrow> bool" where
  "isProcessed processedSheets name = (case processedSheets name of Some b \<Rightarrow> b | None \<Rightarrow> False)"

definition initProcessed :: "DataSheet list \<Rightarrow> (string \<rightharpoonup> bool)" where
  "initProcessed sheets = foldl (\<lambda>processed sheet. processed(sheet_Name sheet \<mapsto> False)) Map.empty sheets"

text \<open>The loop that looks every source name up and stops at the first one missing.\<close>

fun allExists :: "(string \<rightharpoonup> DataSheet) \<Rightarrow> string list \<Rightarrow> bool" where
  "allExists sheetMap [] = True"
| "allExists sheetMap (sourceSheetName # rest) =
     (if sheetMap sourceSheetName = None then False else allExists sheetMap rest)"

text \<open>
  The loop that appends the rows of each source and marks it processed. It runs only
  after \<open>allExists\<close>, so the lookup finds a table; the other branch is the nil
  dereference that cannot happen there.
\<close>

fun appendSourceRows ::
  "(string \<rightharpoonup> DataSheet) \<Rightarrow> string list \<Rightarrow> row list \<Rightarrow> (string \<rightharpoonup> bool)
     \<Rightarrow> row list \<times> (string \<rightharpoonup> bool)" where
  "appendSourceRows sheetMap [] rows processed = (rows, processed)"
| "appendSourceRows sheetMap (sourceSheetName # rest) rows processed =
     (case sheetMap sourceSheetName of
        Some sourceSheet \<Rightarrow>
          appendSourceRows sheetMap rest (rows @ sheet_Rows sourceSheet)
            (processed(sourceSheetName \<mapsto> True))
      | None \<Rightarrow> (rows, processed))"

definition firstSourceColumns :: "(string \<rightharpoonup> DataSheet) \<Rightarrow> string list \<Rightarrow> ColumnInfo list" where
  "firstSourceColumns sheetMap sourceSheets =
     (case sourceSheets of
        [] \<Rightarrow> []
      | first # rest \<Rightarrow> (case sheetMap first of Some firstSheet \<Rightarrow> sheet_Columns firstSheet
                                             | None \<Rightarrow> []))"

text \<open>
  The loop over the merge groups. \<open>CombineConfig.Sheets\<close> is a Go map; the list is its
  groups in the order the \<open>range\<close> statement visits them.
\<close>

fun combineLoop ::
  "(string \<rightharpoonup> DataSheet) \<Rightarrow> CombineSheet list \<Rightarrow> DataSheet list \<Rightarrow> (string \<rightharpoonup> bool)
     \<Rightarrow> DataSheet list \<times> (string \<rightharpoonup> bool)" where
  "combineLoop sheetMap [] combinedSheets processed = (combinedSheets, processed)"
| "combineLoop sheetMap (combineSheet # rest) combinedSheets processed =
     (if \<not> allExists sheetMap (SourceSheets combineSheet)
        then combineLoop sheetMap rest combinedSheets processed
      else
        (case appendSourceRows sheetMap (SourceSheets combineSheet) [] processed of
           (rows, processed') \<Rightarrow>
             combineLoop sheetMap rest
               (combinedSheets @
                [\<lparr>sheet_Name = OutputName combineSheet,
                  sheet_Columns = firstSourceColumns sheetMap (SourceSheets combineSheet),
                  sheet_Rows = rows, sheet_Meta = Map.empty\<rparr>])
               processed'))"

text \<open>\<open>None\<close> for the configuration is the nil \<open>CombineConfig\<close>.\<close>

definition applyCombineConfig :: "CombineSheet list option \<Rightarrow> DataSheet list \<Rightarrow> DataSheet list" where
  "applyCombineConfig combineConfig sheets =
     (case combineConfig of
        None \<Rightarrow> sheets
      | Some groups \<Rightarrow>
          (case combineLoop (buildSheetMap sheets) groups [] (initProcessed sheets) of
             (combinedSheets, processed) \<Rightarrow>
               combinedSheets @ filter (\<lambda>sheet. \<not> isProcessed processed (sheet_Name sheet)) sheets))"

text \<open>
  The collection is a \<open>[]*model.DataSheet\<close>. With a configuration, the first loop reads
  \<open>sheet.Name\<close> of every entry, so a nil entry is a nil dereference.
\<close>

definition applyCombineConfigP ::
  "CombineSheet list option \<Rightarrow> DataSheet option list \<Rightarrow> panic + DataSheet option list" where
  "applyCombineConfigP combineConfig sheets =
     (case combineConfig of
        None \<Rightarrow> Inr sheets
      | Some groups \<Rightarrow>
          (case those sheets of
             None \<Rightarrow> Inl NilDereference
           | Some tables \<Rightarrow> Inr (map Some (applyCombineConfig (Some groups) tables))))"

section \<open>Integrity validator (package validator)\<close>

subsection \<open>fmt\<close>

fun showNat :: "nat \<Rightarrow> string" where
  "showNat n = (if n < 10 then [char_of (48 + n)] else showNat (n div 10) @ [char_of (48 + n mod 10)])"

declare showNat.simps [simp del]

definition showInt :: "int \<Rightarrow> string" where
  "showInt i = (if i < 0 then CHR ''-'' # showNat (nat (- i)) else showNat (nat i))"

text \<open>\<open>%v\<close> of a \<open>float64\<close> is a parameter of this type.\<close>

type_synonym format_float = "float64 \<Rightarrow> string"

text \<open>\<open>%T\<close> of a value.\<close>

fun typeName :: "gvalue \<Rightarrow> string" where
  "typeName VNil = ''<nil>''"
| "typeName (VInt n) = ''int''"
| "typeName (VFloat x) = ''float64''"
| "typeName (VBool b) = ''bool''"
| "typeName (VString s) = ''string''"

text \<open>\<open>%v\<close> of a value, and of a \<open>[]string\<close>.\<close>

fun formatValue :: "format_float \<Rightarrow> gvalue \<Rightarrow> string" where
  "formatValue ff VNil = ''<nil>''"
| "formatValue ff (VInt n) = showInt n"
| "formatValue ff (VFloat x) = ff x"
| "formatValue ff (VBool b) = (if b then ''true'' else ''false'')"
| "formatValue ff (VString s) = s"

fun joinSpace :: "string list \<Rightarrow> string" where
  "joinSpace [] = []"
| "joinSpace [s] = s"
| "joinSpace (s # t # ss) = s @ '' '' @ joinSpace (t # ss)"

definition formatStrings :: "string list \<Rightarrow> string" where
  "formatStrings ss = ''['' @ joinSpace ss @ '']''"

subsection \<open>Equality of interface values\<close>

text \<open>
  Two interface values are equal when they have the same dynamic type and equal values.
  For \<open>float64\<close> that is the equality of IEEE 754: a NaN equals nothing, the two zeros
  are equal. A \<open>map[interface{}]bool\<close> finds a key by this equality.
\<close>

definition isNaN :: "float64 \<Rightarrow> bool" where
  "isNaN x = (and x 0x7FF0000000000000 = 0x7FF0000000000000 \<and> and x 0x000FFFFFFFFFFFFF \<noteq> 0)"

definition float_eq :: "float64 \<Rightarrow> float64 \<Rightarrow> bool" where
  "float_eq x y =
     (\<not> isNaN x \<and> \<not> isNaN y
      \<and> (x = y \<or> (and x 0x7FFFFFFFFFFFFFFF = 0 \<and> and y 0x7FFFFFFFFFFFFFFF = 0)))"

fun go_eq :: "gvalue \<Rightarrow> gvalue \<Rightarrow> bool" where
  "go_eq VNil VNil = True"
| "go_eq (VInt a) (VInt b) = (a = b)"
| "go_eq (VFloat x) (VFloat y) = float_eq x y"
| "go_eq (VBool a) (VBool b) = (a = b)"
| "go_eq (VString s) (VString t) = (s = t)"
| "go_eq v w = False"

subsection \<open>validateDataType\<close>

text \<open>
  \<open>reflect.TypeOf(value).String()\<close>: for the nil interface \<open>TypeOf\<close> is nil and the call
  panics, which is \<open>None\<close> here.
\<close>

fun reflectTypeString :: "gvalue \<Rightarrow> string option" where
  "reflectTypeString VNil = None"
| "reflectTypeString v = Some (typeName v)"

definition validTypeName :: "string \<Rightarrow> string \<Rightarrow> bool" where
  "validTypeName valType expectedType =
     (if expectedType = ''int'' \<or> expectedType = ''integer''
        then valType = ''int'' \<or> valType = ''int32'' \<or> valType = ''int64'' \<or> valType = ''float64''
      else if expectedType = ''float'' \<or> expectedType = ''double'' \<or> expectedType = ''number''
        then valType = ''float32'' \<or> valType = ''float64''
      else if expectedType = ''bool'' \<or> expectedType = ''boolean''
        then valType = ''bool''
      else if expectedType = ''string''
        then valType = ''string''
      else True)"

definition validateDataType :: "gvalue \<Rightarrow> string \<Rightarrow> bool option" where
  "validateDataType val expectedType =
     (case reflectTypeString val of
        None \<Rightarrow> None
      | Some valType \<Rightarrow> Some (validTypeName valType expectedType))"

subsection \<open>Validate\<close>

text \<open>The messages, as the UTF-8 bytes of the source's format strings.\<close>

definition msgRequired :: string where
  "msgRequired =
     [CHR 0xE5, CHR 0xBF, CHR 0x85, CHR 0xE5, CHR 0xA1, CHR 0xAB, CHR 0xE5, CHR 0xAD, CHR 0x97,
      CHR 0xE6, CHR 0xAE, CHR 0xB5, CHR 0xE4, CHR 0xB8, CHR 0x8D, CHR 0xE8, CHR 0x83, CHR 0xBD,
      CHR 0xE4, CHR 0xB8, CHR 0xBA, CHR 0xE7, CHR 0xA9, CHR 0xBA]"

definition msgType :: "string \<Rightarrow> gvalue \<Rightarrow> string" where
  "msgType expectedType val =
     [CHR 0xE6, CHR 0x95, CHR 0xB0, CHR 0xE6, CHR 0x8D, CHR 0xAE, CHR 0xE7, CHR 0xB1, CHR 0xBB,
      CHR 0xE5, CHR 0x9E, CHR 0x8B, CHR 0xE9, CHR 0x94, CHR 0x99, CHR 0xE8, CHR 0xAF, CHR 0xAF,
      CHR 0xEF, CHR 0xBC, CHR 0x8C, CHR 0xE6, CHR 0x9C, CHR 0x9F, CHR 0xE6, CHR 0x9C, CHR 0x9B,
      CHR 0x20]
     @ expectedType
     @ [CHR 0xEF, CHR 0xBC, CHR 0x8C, CHR 0xE5, CHR 0xAE, CHR 0x9E, CHR 0xE9, CHR 0x99, CHR 0x85,
        CHR 0x20]
     @ typeName val"

definition msgOptions :: "string list \<Rightarrow> string" where
  "msgOptions options =
     [CHR 0xE5, CHR 0x80, CHR 0xBC, CHR 0xE4, CHR 0xB8, CHR 0x8D, CHR 0xE5, CHR 0x9C, CHR 0xA8,
      CHR 0xE5, CHR 0x8F, CHR 0xAF, CHR 0xE9, CHR 0x80, CHR 0x89, CHR 0xE8, CHR 0x8C, CHR 0x83,
      CHR 0xE5, CHR 0x9B, CHR 0xB4, CHR 0xE5, CHR 0x86, CHR 0x85, CHR 0xEF, CHR 0xBC, CHR 0x8C,
      CHR 0xE5, CHR 0x8F, CHR 0xAF, CHR 0xE9, CHR 0x80, CHR 0x89, CHR 0xE5, CHR 0x80, CHR 0xBC,
      CHR 0x3A, CHR 0x20]
     @ formatStrings options"

definition msgRefSheet :: "string \<Rightarrow> string" where
  "msgRefSheet refSheet =
     [CHR 0xE5, CHR 0xBC, CHR 0x95, CHR 0xE7, CHR 0x94, CHR 0xA8, CHR 0xE7, CHR 0x9A, CHR 0x84,
      CHR 0xE8, CHR 0xA1, CHR 0xA8, CHR 0x20]
     @ refSheet
     @ [CHR 0x20, CHR 0xE4, CHR 0xB8, CHR 0x8D, CHR 0xE5, CHR 0xAD, CHR 0x98, CHR 0xE5, CHR 0x9C,
        CHR 0xA8]"

definition msgRefValue :: "format_float \<Rightarrow> gvalue \<Rightarrow> string \<Rightarrow> string" where
  "msgRefValue ff val refSheet =
     [CHR 0xE5, CHR 0xBC, CHR 0x95, CHR 0xE7, CHR 0x94, CHR 0xA8, CHR 0xE5, CHR 0x80, CHR 0xBC,
      CHR 0x20]
     @ formatValue ff val
     @ [CHR 0x20, CHR 0xE5, CHR 0x9C, CHR 0xA8, CHR 0xE8, CHR 0xA1, CHR 0xA8, CHR 0x20]
     @ refSheet
     @ [CHR 0x20, CHR 0xE4, CHR 0xB8, CHR 0xAD, CHR 0xE4, CHR 0xB8, CHR 0x8D, CHR 0xE5, CHR 0xAD,
        CHR 0x98, CHR 0xE5, CHR 0x9C, CHR 0xA8]"

text \<open>The three checks of one cell, in the order of the loop body.\<close>

definition checkRequired :: "string \<Rightarrow> nat \<Rightarrow> row \<Rightarrow> ColumnInfo \<Rightarrow> ErrorInfo list" where
  "checkRequired sheetName rowIndex row col =
     (if col_Required col
         \<and> (row (col_Name col) = None \<or> row (col_Name col) = Some VNil
            \<or> row (col_Name col) = Some (VString []))
        then [\<lparr>err_Sheet = sheetName, err_Row = rowIndex + 4, err_Column = col_Name col,
               err_Msg = msgRequired\<rparr>]
      else [])"

text \<open>
  \<open>validateDataType\<close> is called on a value that is not nil, so it does not panic
  (\<open>None\<close>) there.
\<close>

definition checkType :: "string \<Rightarrow> nat \<Rightarrow> row \<Rightarrow> ColumnInfo \<Rightarrow> ErrorInfo list" where
  "checkType sheetName rowIndex row col =
     (case row (col_Name col) of
        None \<Rightarrow> []
      | Some val \<Rightarrow>
          if val \<noteq> VNil \<and> val \<noteq> VString [] then
            (case validateDataType val (col_Type col) of
               Some False \<Rightarrow>
                 [\<lparr>err_Sheet = sheetName, err_Row = rowIndex + 4, err_Column = col_Name col,
                   err_Msg = msgType (col_Type col) val\<rparr>]
             | Some True \<Rightarrow> []
             | None \<Rightarrow> [])
          else [])"

definition checkOptions :: "string \<Rightarrow> nat \<Rightarrow> row \<Rightarrow> ColumnInfo \<Rightarrow> ErrorInfo list" where
  "checkOptions sheetName rowIndex row col =
     (if length (col_Options col) > 0 then
        (case row (col_Name col) of
           Some (VString valStr) \<Rightarrow>
             if \<not> list_ex (\<lambda>opt. opt = valStr) (col_Options col)
               then [\<lparr>err_Sheet = sheetName, err_Row = rowIndex + 4, err_Column = col_Name col,
                      err_Msg = msgOptions (col_Options col)\<rparr>]
             else []
         | _ \<Rightarrow> [])
      else [])"

definition validateCell :: "string \<Rightarrow> nat \<Rightarrow> row \<Rightarrow> ColumnInfo \<Rightarrow> ErrorInfo list" where
  "validateCell sheetName rowIndex row col =
     checkRequired sheetName rowIndex row col
     @ checkType sheetName rowIndex row col
     @ checkOptions sheetName rowIndex row col"

fun validateRows :: "string \<Rightarrow> ColumnInfo list \<Rightarrow> nat \<Rightarrow> row list \<Rightarrow> ErrorInfo list" where
  "validateRows sheetName columns rowIndex [] = []"
| "validateRows sheetName columns rowIndex (row # rows) =
     concat (map (validateCell sheetName rowIndex row) columns)
     @ validateRows sheetName columns (Suc rowIndex) rows"

definition Validate :: "DataSheet \<Rightarrow> ErrorInfo list" where
  "Validate sheet = validateRows (sheet_Name sheet) (sheet_Columns sheet) 0 (sheet_Rows sheet)"

subsection \<open>ValidateRef\<close>

text \<open>
  The keys put into \<open>refIndex[sheet.Name]\<close>: the values, not nil, that the rows hold
  under the name of the first column. A table with no column gives none.
\<close>

definition rowKey :: "string \<Rightarrow> row \<Rightarrow> gvalue list" where
  "rowKey primaryKey row =
     (case row primaryKey of
        Some val \<Rightarrow> if val \<noteq> VNil then [val] else []
      | None \<Rightarrow> [])"

definition primaryKeys :: "DataSheet \<Rightarrow> gvalue list" where
  "primaryKeys sheet =
     (case sheet_Columns sheet of
        [] \<Rightarrow> []
      | first # rest \<Rightarrow> concat (map (rowKey (col_Name first)) (sheet_Rows sheet)))"

text \<open>Each table starts a fresh key set under its name, replacing an earlier one.\<close>

definition buildRefIndex :: "DataSheet list \<Rightarrow> (string \<rightharpoonup> gvalue list)" where
  "buildRefIndex sheets =
     foldl (\<lambda>refIndex sheet. refIndex(sheet_Name sheet \<mapsto> primaryKeys sheet)) Map.empty sheets"

definition hasKey :: "gvalue list \<Rightarrow> gvalue \<Rightarrow> bool" where
  "hasKey keys val = list_ex (\<lambda>k. go_eq k val) keys"

text \<open>The check of one row of a column whose referenced table exists.\<close>

definition checkRef ::
  "format_float \<Rightarrow> gvalue list \<Rightarrow> string \<Rightarrow> ColumnInfo \<Rightarrow> string \<Rightarrow> nat \<Rightarrow> row
     \<Rightarrow> ErrorInfo list" where
  "checkRef ff keys sheetName col refSheet rowIndex row =
     (case row (col_Name col) of
        Some val \<Rightarrow>
          if val \<noteq> VNil \<and> \<not> hasKey keys val
            then [\<lparr>err_Sheet = sheetName, err_Row = rowIndex + 4, err_Column = col_Name col,
                   err_Msg = msgRefValue ff val refSheet\<rparr>]
          else []
      | None \<Rightarrow> [])"

fun refRows ::
  "format_float \<Rightarrow> gvalue list \<Rightarrow> string \<Rightarrow> ColumnInfo \<Rightarrow> string \<Rightarrow> nat \<Rightarrow> row list
     \<Rightarrow> ErrorInfo list" where
  "refRows ff keys sheetName col refSheet rowIndex [] = []"
| "refRows ff keys sheetName col refSheet rowIndex (row # rows) =
     checkRef ff keys sheetName col refSheet rowIndex row
     @ refRows ff keys sheetName col refSheet (Suc rowIndex) rows"

text \<open>The table-level record leaves \<open>Row\<close> at its zero value.\<close>

definition refColumn ::
  "format_float \<Rightarrow> (string \<rightharpoonup> gvalue list) \<Rightarrow> DataSheet \<Rightarrow> ColumnInfo \<Rightarrow> ErrorInfo list" where
  "refColumn ff refIndex sheet col =
     (case col_Ref col of
        None \<Rightarrow> []
      | Some ref \<Rightarrow>
          (case refIndex (ref_Sheet ref) of
             None \<Rightarrow>
               [\<lparr>err_Sheet = sheet_Name sheet, err_Row = 0, err_Column = col_Name col,
                 err_Msg = msgRefSheet (ref_Sheet ref)\<rparr>]
           | Some keys \<Rightarrow>
               refRows ff keys (sheet_Name sheet) col (ref_Sheet ref) 0 (sheet_Rows sheet)))"

definition ValidateRef :: "format_float \<Rightarrow> DataSheet list \<Rightarrow> ErrorInfo list" where
  "ValidateRef ff sheets =
     concat (map (\<lambda>sheet. concat (map (refColumn ff (buildRefIndex sheets) sheet)
                                       (sheet_Columns sheet)))
                 sheets)"

definition ValidateAll :: "format_float \<Rightarrow> DataSheet list \<Rightarrow> ErrorInfo list" where
  "ValidateAll ff sheets = concat (map Validate sheets) @ ValidateRef ff sheets"

section \<open>Format encoders (package converter)\<close>

subsection \<open>PHPConverter\<close>

definition quoted :: "string \<Rightarrow> string" where
  "quoted s = [CHR 0x27] @ s @ [CHR 0x27]"

definition boolToString :: "bool \<Rightarrow> string" where
  "boolToString b = (if b then ''true'' else ''false'')"

text \<open>\<open>strings.ReplaceAll(v, "'", "\\'")\<close>: a backslash before every single quote.\<close>

definition escapeQuotes :: "string \<Rightarrow> string" where
  "escapeQuotes v = concat (map (\<lambda>c. if c = CHR 0x27 then [CHR 0x5C, CHR 0x27] else [c]) v)"

fun valueToString :: "format_float \<Rightarrow> gvalue \<Rightarrow> string" where
  "valueToString ff (VString v) = quoted (escapeQuotes v)"
| "valueToString ff (VBool v) = boolToString v"
| "valueToString ff (VInt v) = showInt v"
| "valueToString ff (VFloat v) = ff v"
| "valueToString ff VNil = ''null''"

fun phpOptions :: "nat \<Rightarrow> string list \<Rightarrow> string" where
  "phpOptions j [] = []"
| "phpOptions j (opt # opts) =
     ''                '' @ showNat j @ '' => '' @ quoted opt @ '',\<newline>''
     @ phpOptions (Suc j) opts"

definition phpColumn :: "format_float \<Rightarrow> nat \<Rightarrow> ColumnInfo \<Rightarrow> string" where
  "phpColumn ff i col =
     ''        '' @ showNat i @ '' => [\<newline>''
     @ ''            '' @ quoted ''name'' @ '' => '' @ quoted (col_Name col) @ '',\<newline>''
     @ ''            '' @ quoted ''type'' @ '' => '' @ quoted (col_Type col) @ '',\<newline>''
     @ ''            '' @ quoted ''comment'' @ '' => '' @ quoted (col_Comment col) @ '',\<newline>''
     @ ''            '' @ quoted ''required'' @ '' => '' @ boolToString (col_Required col)
       @ '',\<newline>''
     @ (if col_Default col \<noteq> VNil
          then ''            '' @ quoted ''default'' @ '' => '' @ valueToString ff (col_Default col)
               @ '',\<newline>''
        else ''            '' @ quoted ''default'' @ '' => null,\<newline>'')
     @ (if length (col_Options col) > 0
          then ''            '' @ quoted ''options'' @ '' => [\<newline>''
               @ phpOptions 0 (col_Options col)
               @ ''            ],\<newline>''
        else ''            '' @ quoted ''options'' @ '' => [],\<newline>'')
     @ (case col_Ref col of
          Some ref \<Rightarrow>
            ''            '' @ quoted ''ref'' @ '' => ['' @ quoted ''sheet'' @ '' => ''
            @ quoted (ref_Sheet ref) @ '', '' @ quoted ''column'' @ '' => ''
            @ quoted (ref_Column ref) @ ''],\<newline>''
        | None \<Rightarrow> ''            '' @ quoted ''ref'' @ '' => null,\<newline>'')
     @ ''        ],\<newline>''"

fun phpColumns :: "format_float \<Rightarrow> nat \<Rightarrow> ColumnInfo list \<Rightarrow> string" where
  "phpColumns ff i [] = []"
| "phpColumns ff i (col # cols) = phpColumn ff i col @ phpColumns ff (Suc i) cols"

definition phpCell :: "format_float \<Rightarrow> row \<Rightarrow> ColumnInfo \<Rightarrow> string" where
  "phpCell ff row col =
     (case row (col_Name col) of
        Some val \<Rightarrow>
          ''            '' @ quoted (col_Name col) @ '' => '' @ valueToString ff val @ '',\<newline>''
      | None \<Rightarrow> ''            '' @ quoted (col_Name col) @ '' => null,\<newline>'')"

fun phpRows :: "format_float \<Rightarrow> ColumnInfo list \<Rightarrow> nat \<Rightarrow> row list \<Rightarrow> string" where
  "phpRows ff cols i [] = []"
| "phpRows ff cols i (row # rows) =
     ''        '' @ showNat i @ '' => [\<newline>''
     @ concat (map (phpCell ff row) cols)
     @ ''        ],\<newline>''
     @ phpRows ff cols (Suc i) rows"

text \<open>
  \<open>for key, val := range sheet.Meta\<close>: Go fixes no order for the keys of a map. The
  list \<open>keys\<close> is the order of one run; \<open>rangeOrder\<close> says that it is one the statement
  can take.
\<close>

definition rangeOrder :: "('k \<rightharpoonup> 'v) \<Rightarrow> 'k list \<Rightarrow> bool" where
  "rangeOrder m keys = (distinct keys \<and> set keys = dom m)"

definition phpMeta :: "format_float \<Rightarrow> (string \<rightharpoonup> gvalue) \<Rightarrow> string list \<Rightarrow> string" where
  "phpMeta ff meta keys =
     concat (map (\<lambda>key. case meta key of
                           Some val \<Rightarrow>
                             ''        '' @ quoted key @ '' => '' @ valueToString ff val
                             @ '',\<newline>''
                         | None \<Rightarrow> [])
                 keys)"

definition phpHeader :: "string \<Rightarrow> string" where
  "phpHeader name =
     ''<?php\<newline>''
     @ ''// '' @ [CHR 0xE8, CHR 0x87, CHR 0xAA, CHR 0xE5, CHR 0x8A, CHR 0xA8, CHR 0xE7, CHR 0x94,
                 CHR 0x9F, CHR 0xE6, CHR 0x88, CHR 0x90, CHR 0xE7, CHR 0x9A, CHR 0x84]
       @ '' '' @ name @ '' ''
       @ [CHR 0xE6, CHR 0x95, CHR 0xB0, CHR 0xE6, CHR 0x8D, CHR 0xAE, CHR 0xE6, CHR 0x96, CHR 0x87,
          CHR 0xE4, CHR 0xBB, CHR 0xB6] @ ''\<newline>''
     @ ''// '' @ [CHR 0xE8, CHR 0xA1, CHR 0xA8, CHR 0xE5, CHR 0x90, CHR 0x8D] @ '': '' @ name
       @ ''\<newline>\<newline>''"

definition PHP_Convert :: "format_float \<Rightarrow> string list \<Rightarrow> DataSheet \<Rightarrow> ConvertResult" where
  "PHP_Convert ff metaKeys sheet =
     \<lparr>FileName = sheet_Name sheet @ ''.php'',
      Content =
        phpHeader (sheet_Name sheet)
        @ ''return [\<newline>''
        @ ''    '' @ quoted ''name'' @ '' => '' @ quoted (sheet_Name sheet) @ '',\<newline>''
        @ ''    '' @ quoted ''columns'' @ '' => [\<newline>''
        @ phpColumns ff 0 (sheet_Columns sheet)
        @ ''    ],\<newline>''
        @ ''    '' @ quoted ''rows'' @ '' => [\<newline>''
        @ phpRows ff (sheet_Columns sheet) 0 (sheet_Rows sheet)
        @ ''    ],\<newline>''
        @ ''    '' @ quoted ''meta'' @ '' => [\<newline>''
        @ phpMeta ff (sheet_Meta sheet) metaKeys
        @ ''    ],\<newline>''
        @ ''];\<newline>'',
      Format = ''php''\<rparr>"

subsection \<open>FBSConverter\<close>

definition getFBSType :: "string \<Rightarrow> string" where
  "getFBSType colType =
     (if colType = ''int'' \<or> colType = ''integer'' then ''int32''
      else if colType = ''float'' \<or> colType = ''double'' \<or> colType = ''number'' then ''float64''
      else if colType = ''bool'' \<or> colType = ''boolean'' then ''bool''
      else if colType = ''string'' then ''string''
      else ''string'')"

definition buildSchema :: "DataSheet \<Rightarrow> string" where
  "buildSchema sheet =
     ''// '' @ [CHR 0xE8, CHR 0x87, CHR 0xAA, CHR 0xE5, CHR 0x8A, CHR 0xA8, CHR 0xE7, CHR 0x94,
                 CHR 0x9F, CHR 0xE6, CHR 0x88, CHR 0x90, CHR 0xE7, CHR 0x9A, CHR 0x84]
       @ '' '' @ sheet_Name sheet @ '' ''
       @ [CHR 0xE6, CHR 0x95, CHR 0xB0, CHR 0xE6, CHR 0x8D, CHR 0xAE] @ ''schema\<newline>\<newline>''
     @ ''namespace '' @ sheet_Name sheet @ '';\<newline>\<newline>''
     @ ''enum ColumnType : byte {\<newline>''
     @ ''    INT,\<newline>''
     @ ''    FLOAT,\<newline>''
     @ ''    BOOL,\<newline>''
     @ ''    STRING,\<newline>''
     @ ''}\<newline>\<newline>''
     @ ''table ColumnInfo {\<newline>''
     @ ''    name:string;\<newline>''
     @ ''    type:ColumnType;\<newline>''
     @ ''    comment:string;\<newline>''
     @ ''    required:bool = true;\<newline>''
     @ ''    default:string;\<newline>''
     @ ''    options:[string];\<newline>''
     @ ''}\<newline>\<newline>''
     @ ''table RowData_'' @ sheet_Name sheet @ '' {\<newline>''
     @ concat (map (\<lambda>col. ''    '' @ col_Name col @ '':'' @ getFBSType (col_Type col)
                            @ '';\<newline>'')
                   (sheet_Columns sheet))
     @ ''}\<newline>\<newline>''
     @ ''table Data_'' @ sheet_Name sheet @ '' {\<newline>''
     @ ''    name:string;\<newline>''
     @ ''    columns:[ColumnInfo];\<newline>''
     @ ''    rows:[RowData_'' @ sheet_Name sheet @ ''];\<newline>''
     @ ''    meta:[string];\<newline>''
     @ ''}\<newline>\<newline>''
     @ ''root_type Data_'' @ sheet_Name sheet @ '';\<newline>''"

text \<open>
  The \<open>meta\<close> slice that \<open>buildJSONData\<close> fills from \<open>range sheet.Meta\<close> and hands, with
  the rest of the data, to \<open>json.MarshalIndent\<close> for the payload file of the compiler.
\<close>

definition buildJSONMeta :: "format_float \<Rightarrow> (string \<rightharpoonup> gvalue) \<Rightarrow> string list \<Rightarrow> string list" where
  "buildJSONMeta ff meta keys =
     concat (map (\<lambda>key. case meta key of
                           Some val \<Rightarrow> [key @ '':'' @ formatValue ff val]
                         | None \<Rightarrow> [])
                 keys)"

text \<open>
  What the operating system does during one \<open>Convert\<close>: the two writes to the temporary
  directory, whether \<open>flatc\<close> is found and whether it runs, and the read of its output.
\<close>

record fbs_run =
  writeSchema :: "go_error option"
  writeJSON :: "go_error option"
  flatcFound :: bool
  flatcRuns :: bool
  readBinary :: "go_error + string"

definition FBS_Convert :: "fbs_run \<Rightarrow> DataSheet \<Rightarrow> go_error + ConvertResult" where
  "FBS_Convert run sheet =
     (case writeSchema run of
        Some err \<Rightarrow> Inl err
      | None \<Rightarrow>
          (case writeJSON run of
             Some err \<Rightarrow> Inl err
           | None \<Rightarrow>
               if \<not> flatcFound run
                 then Inr \<lparr>FileName = sheet_Name sheet @ ''.fbs'', Content = buildSchema sheet,
                           Format = ''fbs''\<rparr>
               else if \<not> flatcRuns run
                 then Inr \<lparr>FileName = sheet_Name sheet @ ''.fbs'', Content = buildSchema sheet,
                           Format = ''fbs''\<rparr>
               else (case readBinary run of
                       Inl err \<Rightarrow> Inl err
                     | Inr binContent \<Rightarrow>
                         Inr \<lparr>FileName = sheet_Name sheet @ ''.bin'', Content = binContent,
                              Format = ''fbs''\<rparr>)))"

subsection \<open>JSONConverter\<close>

text \<open>
  \<open>json.Marshal\<close> and \<open>json.MarshalIndent\<close> on the document built from the table are a
  parameter: the flag says which of the two is called.
\<close>

type_synonym json_marshal = "bool \<Rightarrow> DataSheet \<Rightarrow> go_error + string"

definition JSON_Convert ::
  "json_marshal \<Rightarrow> (string \<rightharpoonup> gvalue) \<Rightarrow> DataSheet \<Rightarrow> go_error + ConvertResult" where
  "JSON_Convert marshal config sheet =
     (case marshal (config ''indent'' = Some (VBool True)) sheet of
        Inl err \<Rightarrow> Inl err
      | Inr content \<Rightarrow>
          Inr \<lparr>FileName = sheet_Name sheet @ ''.json'', Content = content, Format = ''json''\<rparr>)"

subsection \<open>The converter interface and its factory\<close>

datatype converter =
    JSONConverter "string \<rightharpoonup> gvalue"
  | PHPConverter "string \<rightharpoonup> gvalue"
  | FBSConverter "string \<rightharpoonup> gvalue"

text \<open>What the encoders take from outside the program.\<close>

record runtime =
  rt_marshal :: json_marshal
  rt_formatFloat :: format_float
  rt_metaOrder :: "DataSheet \<Rightarrow> string list"
  rt_fbs :: "DataSheet \<Rightarrow> fbs_run"

definition GetFormat :: "converter \<Rightarrow> string" where
  "GetFormat c = (case c of JSONConverter cfg \<Rightarrow> ''json'' | PHPConverter cfg \<Rightarrow> ''php''
                          | FBSConverter cfg \<Rightarrow> ''fbs'')"

definition Convert :: "runtime \<Rightarrow> converter \<Rightarrow> DataSheet \<Rightarrow> go_error + ConvertResult" where
  "Convert rt c sheet =
     (case c of
        JSONConverter cfg \<Rightarrow> JSON_Convert (rt_marshal rt) cfg sheet
      | PHPConverter cfg \<Rightarrow> Inr (PHP_Convert (rt_formatFloat rt) (rt_metaOrder rt sheet) sheet)
      | FBSConverter cfg \<Rightarrow> FBS_Convert (rt_fbs rt sheet) sheet)"

fun batchLoop ::
  "runtime \<Rightarrow> converter \<Rightarrow> DataSheet list \<Rightarrow> ConvertResult list \<Rightarrow> go_error + ConvertResult list" where
  "batchLoop rt c [] results = Inr results"
| "batchLoop rt c (sheet # sheets) results =
     (case Convert rt c sheet of
        Inl err \<Rightarrow> Inl err
      | Inr result \<Rightarrow> batchLoop rt c sheets (results @ [result]))"

definition BatchConvert :: "runtime \<Rightarrow> converter \<Rightarrow> DataSheet list \<Rightarrow> go_error + ConvertResult list" where
  "BatchConvert rt c sheets = batchLoop rt c sheets []"

text \<open>\<open>NewConverterFactory\<close> registers one converter of each kind under its format.\<close>

definition RegisterConverter :: "(string \<rightharpoonup> converter) \<Rightarrow> converter \<Rightarrow> (string \<rightharpoonup> converter)" where
  "RegisterConverter converters c = converters(GetFormat c \<mapsto> c)"

definition NewConverterFactory :: "string \<rightharpoonup> converter" where
  "NewConverterFactory =
     foldl RegisterConverter Map.empty
       [JSONConverter Map.empty, PHPConverter Map.empty, FBSConverter Map.empty]"

definition GetConverter :: "(string \<rightharpoonup> converter) \<Rightarrow> string \<Rightarrow> converter option" where
  "GetConverter converters format = converters format"

text \<open>
  The pair is Go's \<open>(IConverter, error)\<close>; \<open>None\<close> is nil. \<open>Init\<close> stores the
  configuration and returns no error, so the second component is always nil.
\<close>

definition CreateConverter ::
  "(string \<rightharpoonup> converter) \<Rightarrow> string \<Rightarrow> (string \<rightharpoonup> gvalue) \<Rightarrow> converter option \<times> go_error option" where
  "CreateConverter converters format config =
     (case GetConverter converters format of
        None \<Rightarrow> (None, None)
      | Some c \<Rightarrow>
          (case c of
             JSONConverter old \<Rightarrow> (Some (JSONConverter config), None)
           | PHPConverter old \<Rightarrow> (Some (PHPConverter config), None)
           | FBSConverter old \<Rightarrow> (Some (FBSConverter config), None)))"

section \<open>Pipeline orchestrator (cmd/main.go, package config)\<close>

subsection \<open>Configuration\<close>

record ConverterConfig =
  cc_Type :: string
  cc_Enabled :: bool
  cc_OutputPath :: string
  cc_Options :: "string \<rightharpoonup> gvalue"

text \<open>
  The fields of \<open>Config\<close> that the functions below read. \<open>Converters\<close> is a Go map
  that may be nil (\<open>None\<close>).
\<close>

record Config =
  OutputDir :: string
  Formats :: "string list"
  Async :: bool
  FastMode :: bool
  Converters :: "(string \<rightharpoonup> ConverterConfig) option"

text \<open>
  \<open>None\<close> for the manager's \<open>Config\<close> is the nil pointer. A format that the map does
  not hold gives the zero \<open>ConverterConfig\<close>, which is not enabled.
\<close>

definition GetConverterConfig :: "Config option \<Rightarrow> string \<Rightarrow> ConverterConfig option" where
  "GetConverterConfig config format =
     (case config of
        None \<Rightarrow> None
      | Some cfg \<Rightarrow>
          (case Converters cfg of
             None \<Rightarrow> None
           | Some converters \<Rightarrow>
               (case converters format of
                  Some cc \<Rightarrow> Some cc
                | None \<Rightarrow> Some \<lparr>cc_Type = [], cc_Enabled = False, cc_OutputPath = [],
                                  cc_Options = Map.empty\<rparr>)))"

subsection \<open>path/filepath on a Unix system\<close>

fun joinSlash :: "string list \<Rightarrow> string" where
  "joinSlash [] = []"
| "joinSlash [e] = e"
| "joinSlash (e # f # es) = e @ ''/'' @ joinSlash (f # es)"

text \<open>
  \<open>filepath.Clean\<close>: the elements between slashes, without the empty ones and the
  dots; a \<open>..\<close> removes the element before it, is dropped at the root, and is kept
  at the start of a path that is not rooted.
\<close>

fun cleanElems :: "bool \<Rightarrow> string list \<Rightarrow> string list \<Rightarrow> string list" where
  "cleanElems rooted out [] = out"
| "cleanElems rooted out (e # es) =
     (if e = [] \<or> e = ''.'' then cleanElems rooted out es
      else if e = ''..'' then
        (if out \<noteq> [] \<and> last out \<noteq> ''..'' then cleanElems rooted (butlast out) es
         else if \<not> rooted then cleanElems rooted (out @ [''..'']) es
         else cleanElems rooted out es)
      else cleanElems rooted (out @ [e]) es)"

definition Clean :: "string \<Rightarrow> string" where
  "Clean path =
     (let rooted = HasPrefix path ''/'' \<and> path \<noteq> [];
          out = (if rooted then ''/'' else []) @ joinSlash (cleanElems rooted [] (Split path (CHR ''/'')))
      in if out = [] then ''.'' else out)"

definition Join :: "string list \<Rightarrow> string" where
  "Join elem =
     (case dropWhile (\<lambda>e. e = []) elem of
        [] \<Rightarrow> []
      | e # es \<Rightarrow> Clean (joinSlash (e # es)))"

text \<open>\<open>filepath.Ext\<close>: from the last dot of the last element, or empty.\<close>

definition Ext :: "string \<Rightarrow> string" where
  "Ext path =
     (let elem = last (Split path (CHR ''/'')) in
      if CHR ''.'' \<in> set elem
        then CHR ''.'' # rev (takeWhile (\<lambda>c. c \<noteq> CHR ''.'') (rev elem))
      else [])"

text \<open>\<open>filepath.Base\<close>: the last element, after the trailing slashes are removed.\<close>

definition Base :: "string \<Rightarrow> string" where
  "Base path =
     (if path = [] then ''.''
      else (let p = rev (dropWhile (\<lambda>c. c = CHR ''/'') (rev path)) in
            if p = [] then ''/'' else last (Split p (CHR ''/''))))"

subsection \<open>needProcess\<close>

text \<open>
  \<open>stat path\<close> is the modification time that \<open>os.Stat\<close> gives for the path, or
  \<open>None\<close> when it returns an error.
\<close>

type_synonym file_times = "string \<Rightarrow> nat option"

definition outputFileName :: "string \<Rightarrow> string \<Rightarrow> string option" where
  "outputFileName format fileName =
     (if format = ''json'' then Some (fileName @ ''.json'')
      else if format = ''php'' then Some (fileName @ ''.php'')
      else if format = ''fbs'' then Some (fileName @ ''.bin'')
      else None)"

definition outputDirOf :: "Config \<Rightarrow> ConverterConfig \<Rightarrow> string" where
  "outputDirOf cfg convConfig =
     (if cc_OutputPath convConfig \<noteq> [] then Join [OutputDir cfg, cc_OutputPath convConfig]
      else OutputDir cfg)"

fun needProcessLoop :: "file_times \<Rightarrow> Config \<Rightarrow> string \<Rightarrow> nat \<Rightarrow> string list \<Rightarrow> bool" where
  "needProcessLoop stat cfg filePath fileModTime [] = False"
| "needProcessLoop stat cfg filePath fileModTime (format # formats) =
     (case GetConverterConfig (Some cfg) format of
        None \<Rightarrow> needProcessLoop stat cfg filePath fileModTime formats
      | Some convConfig \<Rightarrow>
          if \<not> cc_Enabled convConfig then needProcessLoop stat cfg filePath fileModTime formats
          else
            (case outputFileName format (TrimSuffix (Base filePath) (Ext filePath)) of
               None \<Rightarrow> needProcessLoop stat cfg filePath fileModTime formats
             | Some name \<Rightarrow>
                 (case stat (Join [outputDirOf cfg convConfig, name]) of
                    None \<Rightarrow> True
                  | Some outputModTime \<Rightarrow>
                      if outputModTime < fileModTime then True
                      else needProcessLoop stat cfg filePath fileModTime formats)))"

definition needProcess :: "file_times \<Rightarrow> Config \<Rightarrow> string \<Rightarrow> bool" where
  "needProcess stat cfg filePath =
     (case stat filePath of
        None \<Rightarrow> True
      | Some fileModTime \<Rightarrow> needProcessLoop stat cfg filePath fileModTime (Formats cfg))"

text \<open>
  The path under which \<open>outputResults\<close> writes an artifact; \<open>None\<close> when the
  configuration has no entry for its format and the artifact is skipped.
\<close>

definition outputPathOf :: "Config \<Rightarrow> ConvertResult \<Rightarrow> string option" where
  "outputPathOf cfg result =
     (case GetConverterConfig (Some cfg) (Format result) of
        None \<Rightarrow> None
      | Some convConfig \<Rightarrow> Some (Join [outputDirOf cfg convConfig, FileName result]))"

subsection \<open>convertData\<close>

text \<open>
  The synchronous loop over the formats. A call of \<open>BatchConvert\<close> on the nil converter
  is a panic of the Go runtime.
\<close>

fun convertLoop ::
  "runtime \<Rightarrow> Config \<Rightarrow> DataSheet list \<Rightarrow> string list \<Rightarrow> ConvertResult list
     \<Rightarrow> failure + ConvertResult list" where
  "convertLoop rt cfg sheets [] results = Inr results"
| "convertLoop rt cfg sheets (format # formats) results =
     (case GetConverterConfig (Some cfg) format of
        None \<Rightarrow> convertLoop rt cfg sheets formats results
      | Some convConfig \<Rightarrow>
          if \<not> cc_Enabled convConfig then convertLoop rt cfg sheets formats results
          else
            (case CreateConverter NewConverterFactory format (cc_Options convConfig) of
               (conv, Some err) \<Rightarrow> Inl (Error err)
             | (None, None) \<Rightarrow> Inl (Panic NilDereference)
             | (Some c, None) \<Rightarrow>
                 (case BatchConvert rt c sheets of
                    Inl err \<Rightarrow> Inl (Error err)
                  | Inr convResults \<Rightarrow>
                      convertLoop rt cfg sheets formats (results @ convResults))))"

text \<open>
  The body of the goroutine that \<open>asyncConvertData\<close> starts for one format: it sends a
  list of results (or nil) and an error (or nil), or it panics. How the main goroutine
  receives what the units send depends on the scheduler and is not part of this model.
\<close>

definition asyncUnit ::
  "runtime \<Rightarrow> Config \<Rightarrow> DataSheet list \<Rightarrow> string
     \<Rightarrow> panic + (ConvertResult list option \<times> go_error option)" where
  "asyncUnit rt cfg sheets f =
     (case GetConverterConfig (Some cfg) f of
        None \<Rightarrow> Inr (None, None)
      | Some convConfig \<Rightarrow>
          if \<not> cc_Enabled convConfig then Inr (None, None)
          else
            (case CreateConverter NewConverterFactory f (cc_Options convConfig) of
               (conv, Some err) \<Rightarrow> Inr (None, Some err)
             | (None, None) \<Rightarrow> Inl NilDereference
             | (Some c, None) \<Rightarrow>
                 (case BatchConvert rt c sheets of
                    Inl err \<Rightarrow> Inr (None, Some err)
                  | Inr convResults \<Rightarrow> Inr (Some convResults, None))))"

text \<open>The synchronous path of \<open>convertData\<close>, taken when \<open>Async\<close> is off.\<close>

definition convertData :: "runtime \<Rightarrow> Config \<Rightarrow> DataSheet list \<Rightarrow> failure + ConvertResult list" where
  "convertData rt cfg sheets = convertLoop rt cfg sheets (Formats cfg) []"

section \<open>Example data\<close>

text \<open>
  The tables and merge groups used in the closed examples: the \<open>items\<close> and \<open>weapons\<close>
  tables of the README's \<open>combine.json\<close>, a third table, and a group that names a table
  the collection does not have.
\<close>

definition idColumn :: ColumnInfo where
  "idColumn = \<lparr>col_Name = ''id'', col_Type = ''int'', col_Comment = [], col_Required = True,
               col_Default = VNil, col_Options = [], col_Ref = None\<rparr>"

definition items :: DataSheet where
  "items = \<lparr>sheet_Name = ''items'', sheet_Columns = [idColumn],
            sheet_Rows = [[''id'' \<mapsto> VInt 1], [''id'' \<mapsto> VInt 2]], sheet_Meta = Map.empty\<rparr>"

definition weapons :: DataSheet where
  "weapons = \<lparr>sheet_Name = ''weapons'', sheet_Columns = [idColumn],
              sheet_Rows = [[''id'' \<mapsto> VInt 7]], sheet_Meta = Map.empty\<rparr>"

definition skills :: DataSheet where
  "skills = \<lparr>sheet_Name = ''skills'', sheet_Columns = [idColumn],
             sheet_Rows = [[''id'' \<mapsto> VInt 9]], sheet_Meta = Map.empty\<rparr>"

definition groupAll :: CombineSheet where
  "groupAll = \<lparr>SourceSheets = [''items'', ''weapons''], KeyColumn = ''id'',
               OutputName = ''all_items''\<rparr>"

definition groupPets :: CombineSheet where
  "groupPets = \<lparr>SourceSheets = [''items'', ''pets''], KeyColumn = ''id'',
                OutputName = ''all_pets''\<rparr>"

text \<open>
  A table with a required column holding nil and an optional column with an enumeration
  holding the empty string (the cell was empty and the annotation gave the empty default),
  and a table whose column is declared \<open>float\<close> and holds an \<open>int\<close>.
\<close>

definition nameColumn :: ColumnInfo where
  "nameColumn = \<lparr>col_Name = ''name'', col_Type = ''string'', col_Comment = [],
                 col_Required = True, col_Default = VNil, col_Options = [], col_Ref = None\<rparr>"

definition rarityColumn :: ColumnInfo where
  "rarityColumn = \<lparr>col_Name = ''rarity'', col_Type = ''string'', col_Comment = [],
                   col_Required = False, col_Default = VString [],
                   col_Options = [''common'', ''rare''], col_Ref = None\<rparr>"

definition loot :: DataSheet where
  "loot = \<lparr>sheet_Name = ''loot'', sheet_Columns = [idColumn, nameColumn, rarityColumn],
           sheet_Rows = [[''id'' \<mapsto> VInt 1, ''name'' \<mapsto> VNil, ''rarity'' \<mapsto> VString []]],
           sheet_Meta = Map.empty\<rparr>"

definition priceColumn :: ColumnInfo where
  "priceColumn = \<lparr>col_Name = ''price'', col_Type = ''float'', col_Comment = [],
                  col_Required = True, col_Default = VNil, col_Options = [], col_Ref = None\<rparr>"

definition prices :: DataSheet where
  "prices = \<lparr>sheet_Name = ''prices'', sheet_Columns = [idColumn, priceColumn],
             sheet_Rows = [[''id'' \<mapsto> VInt 1, ''price'' \<mapsto> VInt 5]],
             sheet_Meta = Map.empty\<rparr>"

text \<open>
  The example of the spec: \<open>items\<close> has a column \<open>type\<close> that refers to \<open>types.id\<close>, and
  \<open>types\<close> has the ids 1, 2 and 3. The rows of \<open>items\<close> hold 4, 2 and nil there.
\<close>

definition typeColumn :: ColumnInfo where
  "typeColumn = \<lparr>col_Name = ''type'', col_Type = ''int'', col_Comment = [],
                 col_Required = False, col_Default = VNil, col_Options = [],
                 col_Ref = Some \<lparr>ref_Sheet = ''types'', ref_Column = ''id''\<rparr>\<rparr>"

definition typedItems :: DataSheet where
  "typedItems = \<lparr>sheet_Name = ''items'', sheet_Columns = [idColumn, typeColumn],
                 sheet_Rows = [[''id'' \<mapsto> VInt 1, ''type'' \<mapsto> VInt 4],
                               [''id'' \<mapsto> VInt 2, ''type'' \<mapsto> VInt 2],
                               [''id'' \<mapsto> VInt 3, ''type'' \<mapsto> VNil]],
                 sheet_Meta = Map.empty\<rparr>"

definition types :: DataSheet where
  "types = \<lparr>sheet_Name = ''types'', sheet_Columns = [idColumn],
            sheet_Rows = [[''id'' \<mapsto> VInt 1], [''id'' \<mapsto> VInt 2], [''id'' \<mapsto> VInt 3]],
            sheet_Meta = Map.empty\<rparr>"

text \<open>A table whose column is declared \<open>int\<close> and holds the \<open>float64\<close> 2.0.\<close>

definition levelColumn :: ColumnInfo where
  "levelColumn = \<lparr>col_Name = ''level'', col_Type = ''int'', col_Comment = [],
                  col_Required = True, col_Default = VNil, col_Options = [], col_Ref = None\<rparr>"

definition levels :: DataSheet where
  "levels = \<lparr>sheet_Name = ''levels'', sheet_Columns = [idColumn, levelColumn],
             sheet_Rows = [[''id'' \<mapsto> VInt 1, ''level'' \<mapsto> VFloat 0x4000000000000000]],
             sheet_Meta = Map.empty\<rparr>"

text \<open>A stand-in for \<open>%v\<close> on a \<open>float64\<close> in closed examples that print no float.\<close>

definition noFormat :: format_float where
  "noFormat x = ''float64''"

text \<open>
  A table whose metadata has two entries; a run of the FBS encoder on a machine without
  \<open>flatc\<close>, and one whose temporary directory cannot be written; a runtime for the
  closed examples; and three configurations: only \<open>fbs\<close>, \<open>php\<close> followed by a format
  with no encoder, and \<open>fbs\<close> followed by it.
\<close>

definition tagged :: DataSheet where
  "tagged = \<lparr>sheet_Name = ''items'', sheet_Columns = [idColumn],
             sheet_Rows = [[''id'' \<mapsto> VInt 1]],
             sheet_Meta = [''a'' \<mapsto> VInt 1, ''b'' \<mapsto> VInt 2]\<rparr>"

definition noFlatc :: fbs_run where
  "noFlatc = \<lparr>writeSchema = None, writeJSON = None, flatcFound = False, flatcRuns = False,
              readBinary = Inl (ErrIO ''open'')\<rparr>"

definition noTemp :: fbs_run where
  "noTemp = \<lparr>writeSchema = Some (ErrIO ''write''), writeJSON = None, flatcFound = False,
             flatcRuns = False, readBinary = Inl (ErrIO ''open'')\<rparr>"

definition plainRuntime :: "fbs_run \<Rightarrow> runtime" where
  "plainRuntime run = \<lparr>rt_marshal = (\<lambda>indent sheet. Inr ''{}''), rt_formatFloat = noFormat,
                        rt_metaOrder = (\<lambda>sheet. []), rt_fbs = (\<lambda>sheet. run)\<rparr>"

definition enabledIn :: "string \<Rightarrow> ConverterConfig" where
  "enabledIn dir = \<lparr>cc_Type = dir, cc_Enabled = True, cc_OutputPath = dir, cc_Options = Map.empty\<rparr>"

definition fbsOnly :: Config where
  "fbsOnly = \<lparr>OutputDir = ''output'', Formats = [''fbs''], Async = False, FastMode = True,
              Converters = Some [''fbs'' \<mapsto> enabledIn ''fbs'']\<rparr>"

definition phpThenXml :: Config where
  "phpThenXml = \<lparr>OutputDir = ''output'', Formats = [''php'', ''xml''], Async = False,
                 FastMode = False,
                 Converters = Some [''php'' \<mapsto> enabledIn ''php'', ''xml'' \<mapsto> enabledIn ''xml'']\<rparr>"

definition fbsThenXml :: Config where
  "fbsThenXml = \<lparr>OutputDir = ''output'', Formats = [''fbs'', ''xml''], Async = False,
                 FastMode = False,
                 Converters = Some [''fbs'' \<mapsto> enabledIn ''fbs'', ''xml'' \<mapsto> enabledIn ''xml'']\<rparr>"

section \<open>Properties of the readers\<close>

subsection \<open>Boolean cells\<close>

lemma Excel_convertValue_bool:
  "ToLower dataType = ''bool'' \<or> ToLower dataType = ''boolean'' \<Longrightarrow>
   Excel_convertValue pf val dataType =
     (VBool (ToLower val = ''true'' \<or> ToLower val = ''1'' \<or> ToLower val = ''yes''), None)"
  by (auto simp: Excel_convertValue_def Let_def)

lemma leadingSpace_Nil: "leadingSpace [] = 0"
  by (simp add: leadingSpace_def)

lemma trailingSpace_Nil: "trailingSpace [] = 0"
  by (simp add: trailingSpace_def)

lemma TrimSpace_id: "leadingSpace s = 0 \<Longrightarrow> trailingSpace s = 0 \<Longrightarrow> TrimSpace s = s"
  by (simp add: TrimSpace_def TrimLeftSpace.simps [of s] TrimRightSpace.simps [of s])

lemma TrimSpace_Nil: "TrimSpace [] = []"
  by (simp add: TrimSpace_id leadingSpace_Nil trailingSpace_Nil)

lemma parseCommentMetadata_Nil: "parseCommentMetadata r pf col [] = col"
  by (simp add: parseCommentMetadata_def parseDirective_def TrimSpace_Nil HasPrefix_def
        kw_required_def kw_optional_def kw_default_def kw_options_def kw_ref_def)

lemma Atoi_1: "Atoi ''1'' = (1, None)"
  by (simp add: Atoi_def HasPrefix_def isDigit_def digitVal_def Let_def)

lemma CSV_convertValue_yes:
  "CSV_convertValue pf ''yes'' ''bool'' = (VBool False, Some (ErrSyntax ''ParseBool'' ''yes''))"
  by (simp add: CSV_convertValue_def ParseBool_def)

text \<open>
  C1. Boolean coercion never fails in either reader. The Excel reader does so
  (\<open>Excel_convertValue_bool\<close>). The CSV reader passes the cell to \<open>strconv.ParseBool\<close>:
  the text \<open>yes\<close> in a column of type \<open>bool\<close> is an error, and reading the file that
  holds it ends with that error.
\<close>

theorem CSV_bool_cell_aborts_read:
  "CSV_convertValue pf ''yes'' ''bool'' = (VBool False, Some (ErrSyntax ''ParseBool'' ''yes''))
   \<and> CSV_ReadAll pf
        (\<lambda>p. Inr [[''id'', ''flag''], [''int'', ''bool''], ['''', ''''], [''1'', ''yes'']])
        ''data/t.csv''
      = Inl (Error (ErrSyntax ''ParseBool'' ''yes''))"
proof -
  have "readRow CSVReader pf [''1'', ''yes''] 0
          [\<lparr>col_Name = ''id'', col_Type = ''int'', col_Comment = [], col_Required = True,
            col_Default = VNil, col_Options = [], col_Ref = None\<rparr>,
           \<lparr>col_Name = ''flag'', col_Type = ''bool'', col_Comment = [], col_Required = True,
            col_Default = VNil, col_Options = [], col_Ref = None\<rparr>] Map.empty
        = Inl (''flag'', ErrSyntax ''ParseBool'' ''yes'')"
    by (simp add: convertValue_def CSV_convertValue_def Atoi_1 ParseBool_def)
  then show ?thesis
    by (simp add: CSV_convertValue_yes CSV_ReadAll_def CSV_ReadSheet_def sheetOfRows_def
          parseCommentMetadata_Nil)
qed

subsection \<open>Sub-tables of fewer than three rows\<close>

lemma Excel_short_sheet_left_out:
  "GetRows f sheetName = Inr rows \<Longrightarrow> length rows < 3 \<Longrightarrow>
   Excel_readAllSheets pf f (sheetName # sheetNames) sheets
     = Excel_readAllSheets pf f sheetNames sheets"
  by (simp add: Excel_readSheet_def sheetOfRows_def)

text \<open>
  C8. A sub-table of fewer than three rows gives no table in the list that read-all
  returns. The Excel reader leaves such a sheet out (\<open>Excel_short_sheet_left_out\<close>).
  \<open>CSVReader.ReadAll\<close> wraps what \<open>ReadSheet\<close> returned without looking at it: for a
  file of two records the list has one entry, the nil pointer, and the transformer, which
  \<open>readSourceFiles\<close> runs on the collection next, dereferences it.
\<close>

theorem CSV_ReadAll_short_file_nil_entry:
  "CSV_ReadAll pf (\<lambda>p. Inr [[''id'', ''name''], [''int'', ''string'']]) ''data/t.csv''
     = Inr [None]
   \<and> applyCombineConfigP (Some []) [None] = Inl NilDereference"
  by (simp add: CSV_ReadAll_def CSV_ReadSheet_def sheetOfRows_def applyCombineConfigP_def)

subsection \<open>The default directive\<close>

lemma HasPrefix_nth: "HasPrefix s p \<Longrightarrow> i < length p \<Longrightarrow> s ! i = p ! i"
  unfolding HasPrefix_def by (metis nth_take)

lemma default_not_required: "HasPrefix part kw_default \<Longrightarrow> \<not> HasPrefix part kw_required"
proof
  assume a: "HasPrefix part kw_default" and b: "HasPrefix part kw_required"
  have "part ! 0 = kw_default ! 0"
    using HasPrefix_nth [OF a, of 0] by (simp add: kw_default_def)
  moreover have "part ! 0 = kw_required ! 0"
    using HasPrefix_nth [OF b, of 0] by (simp add: kw_required_def)
  ultimately show False by (simp add: kw_default_def kw_required_def)
qed

lemma default_not_optional: "HasPrefix part kw_default \<Longrightarrow> \<not> HasPrefix part kw_optional"
proof
  assume a: "HasPrefix part kw_default" and b: "HasPrefix part kw_optional"
  have "part ! 1 = kw_default ! 1"
    using HasPrefix_nth [OF a, of 1] by (simp add: kw_default_def)
  moreover have "part ! 1 = kw_optional ! 1"
    using HasPrefix_nth [OF b, of 1] by (simp add: kw_optional_def)
  ultimately show False by (simp add: kw_default_def kw_optional_def)
qed

lemma parseDirective_Type: "col_Type (parseDirective r pf col part) = col_Type col"
  by (simp add: parseDirective_def Let_def)

lemma parseDirectives_Type: "col_Type (foldl (parseDirective r pf) col parts) = col_Type col"
  by (induction parts arbitrary: col) (simp_all add: parseDirective_Type)

lemma parseDirective_default:
  "HasPrefix (TrimSpace part) kw_default \<Longrightarrow>
   col_Default (parseDirective r pf col part) =
     fst (convertValue r pf (TrimPrefix (TrimSpace part) kw_default) (col_Type col))"
  by (simp add: parseDirective_def Let_def default_not_required default_not_optional)

lemma parseDirective_other:
  "\<not> HasPrefix (TrimSpace part) kw_default \<Longrightarrow>
   col_Default (parseDirective r pf col part) = col_Default col"
  by (simp add: parseDirective_def Let_def)

lemma parseDirectives_other:
  "\<forall>q\<in>set qs. \<not> HasPrefix (TrimSpace q) kw_default \<Longrightarrow>
   col_Default (foldl (parseDirective r pf) col qs) = col_Default col"
  by (induction qs arbitrary: col) (simp_all add: parseDirective_other)

lemma convertValue_not_nil: "fst (convertValue r pf val t) \<noteq> VNil"
  by (cases r)
     (auto simp: convertValue_def CSV_convertValue_def Excel_convertValue_def Let_def
           split: prod.splits)

lemma Atoi_abc: "Atoi ''abc'' = (0, Some (ErrSyntax ''Atoi'' ''abc''))"
  by (simp add: Atoi_def HasPrefix_def isDigit_def Let_def)

lemma TrimSpace_default_abc: "TrimSpace (kw_default @ ''abc'') = kw_default @ ''abc''"
  by (rule TrimSpace_id)
     (simp_all add: leadingSpace_def trailingSpace_def kw_default_def asciiSpace_def
        unicodeSpaces_def HasPrefix_def HasSuffix_def)

lemma HasPrefix_default_abc: "HasPrefix (TrimSpace (kw_default @ ''abc'')) kw_default"
  by (simp only: TrimSpace_default_abc) (simp add: HasPrefix_def)

lemma TrimPrefix_default_abc: "TrimPrefix (TrimSpace (kw_default @ ''abc'')) kw_default = ''abc''"
  by (simp only: TrimSpace_default_abc) (simp add: TrimPrefix_def HasPrefix_def)

lemma TrimSpace_optional: "TrimSpace kw_optional = kw_optional"
  by (rule TrimSpace_id)
     (simp_all add: leadingSpace_def trailingSpace_def kw_optional_def asciiSpace_def
        unicodeSpaces_def HasPrefix_def HasSuffix_def)

lemma Split_default_abc_optional:
  "Split (kw_default @ ''abc|'' @ kw_optional) (CHR ''|'') = [kw_default @ ''abc'', kw_optional]"
  by (simp add: kw_default_def kw_optional_def)

text \<open>
  C7, as the code has it. The last default directive of an annotation decides the
  column's default. When its literal fails to coerce, the error is dropped and nothing
  is raised, but the default is not left unset: it is the value \<open>convertValue\<close> returned
  with the error, which is never nil (0 for a malformed integer).
\<close>

theorem default_directive_failure_sets_default:
  assumes "Split comment (CHR ''|'') = ps @ p # qs"
    and "HasPrefix (TrimSpace p) kw_default"
    and "\<forall>q\<in>set qs. \<not> HasPrefix (TrimSpace q) kw_default"
    and "convertValue r pf (TrimPrefix (TrimSpace p) kw_default) (col_Type col) = (v, Some err)"
  shows "col_Default (parseCommentMetadata r pf col comment) = v \<and> v \<noteq> VNil"
proof -
  let ?c1 = "foldl (parseDirective r pf) col ps"
  have t: "col_Type ?c1 = col_Type col" by (rule parseDirectives_Type)
  have "col_Default (parseCommentMetadata r pf col comment)
        = col_Default (foldl (parseDirective r pf) (parseDirective r pf ?c1 p) qs)"
    by (simp add: parseCommentMetadata_def assms(1))
  also have "\<dots> = col_Default (parseDirective r pf ?c1 p)"
    by (rule parseDirectives_other [OF assms(3)])
  also have "\<dots> = fst (convertValue r pf (TrimPrefix (TrimSpace p) kw_default) (col_Type col))"
    by (simp add: parseDirective_default [OF assms(2)] t)
  also have "\<dots> = v" by (simp add: assms(4))
  finally have d: "col_Default (parseCommentMetadata r pf col comment) = v" .
  have "v \<noteq> VNil"
    using convertValue_not_nil [of r pf "TrimPrefix (TrimSpace p) kw_default" "col_Type col"]
    by (simp add: assms(4))
  with d show ?thesis by simp
qed

theorem default_directive_failure_witness:
  "Split (kw_default @ ''abc|'' @ kw_optional) (CHR ''|'') = [] @ (kw_default @ ''abc'') # [kw_optional]
   \<and> HasPrefix (TrimSpace (kw_default @ ''abc'')) kw_default
   \<and> \<not> HasPrefix (TrimSpace kw_optional) kw_default
   \<and> convertValue CSVReader noFloat (TrimPrefix (TrimSpace (kw_default @ ''abc'')) kw_default) ''int''
       = (VInt 0, Some (ErrSyntax ''Atoi'' ''abc''))
   \<and> col_Default
        (parseCommentMetadata CSVReader noFloat
           \<lparr>col_Name = ''hp'', col_Type = ''int'', col_Comment = [], col_Required = True,
            col_Default = VNil, col_Options = [], col_Ref = None\<rparr>
           (kw_default @ ''abc|'' @ kw_optional)) = VInt 0"
proof -
  let ?col = "\<lparr>col_Name = ''hp'', col_Type = ''int'', col_Comment = [], col_Required = True,
            col_Default = VNil, col_Options = [], col_Ref = None\<rparr>"
  have s: "Split (kw_default @ ''abc|'' @ kw_optional) (CHR ''|'')
             = [] @ (kw_default @ ''abc'') # [kw_optional]"
    by (simp only: Split_default_abc_optional append_Nil)
  have p: "HasPrefix (TrimSpace (kw_default @ ''abc'')) kw_default"
    by (simp only: HasPrefix_default_abc)
  have q0: "\<not> HasPrefix (TrimSpace kw_optional) kw_default"
    by (simp only: TrimSpace_optional) (simp add: HasPrefix_def kw_optional_def kw_default_def)
  then have q: "\<forall>q\<in>set [kw_optional]. \<not> HasPrefix (TrimSpace q) kw_default"
    by simp
  have c: "convertValue CSVReader noFloat (TrimPrefix (TrimSpace (kw_default @ ''abc'')) kw_default)
             (col_Type ?col) = (VInt 0, Some (ErrSyntax ''Atoi'' ''abc''))"
    by (simp add: TrimPrefix_default_abc convertValue_def CSV_convertValue_def Atoi_abc)
  then have c0: "convertValue CSVReader noFloat
                   (TrimPrefix (TrimSpace (kw_default @ ''abc'')) kw_default) ''int''
                 = (VInt 0, Some (ErrSyntax ''Atoi'' ''abc''))"
    by simp
  have "col_Default (parseCommentMetadata CSVReader noFloat ?col (kw_default @ ''abc|'' @ kw_optional))
          = VInt 0"
    using default_directive_failure_sets_default [OF s p q c] by (rule conjunct1)
  with s p q0 c0 show ?thesis by (intro conjI)
qed

text \<open>
  The claim as the spec words it fails: the literal \<open>abc\<close> does not coerce to \<open>int\<close>,
  and the column's default after parsing is the integer 0, not nil.
\<close>

theorem default_left_unset_counterexample:
  "snd (convertValue CSVReader noFloat ''abc'' ''int'') = Some (ErrSyntax ''Atoi'' ''abc'')
   \<and> col_Default
        (parseCommentMetadata CSVReader noFloat
           \<lparr>col_Name = ''hp'', col_Type = ''int'', col_Comment = [], col_Required = True,
            col_Default = VNil, col_Options = [], col_Ref = None\<rparr>
           (kw_default @ ''abc'')) \<noteq> VNil"
proof -
  have "Split (kw_default @ ''abc'') (CHR ''|'') = [kw_default @ ''abc'']"
    by (simp add: kw_default_def)
  then have "col_Default
        (parseCommentMetadata CSVReader noFloat
           \<lparr>col_Name = ''hp'', col_Type = ''int'', col_Comment = [], col_Required = True,
            col_Default = VNil, col_Options = [], col_Ref = None\<rparr>
           (kw_default @ ''abc'')) = fst (convertValue CSVReader noFloat ''abc'' ''int'')"
    by (simp add: parseCommentMetadata_def parseDirective_default [OF HasPrefix_default_abc]
          TrimPrefix_default_abc)
  then show ?thesis
    by (simp add: convertValue_def CSV_convertValue_def Atoi_abc)
qed

section \<open>Properties of the transformer\<close>

lemma allExists_iff: "allExists sheetMap names \<longleftrightarrow> (\<forall>n\<in>set names. sheetMap n \<noteq> None)"
  by (induction names) auto

lemma buildSheetMap_snoc:
  "buildSheetMap (sheets @ [sheet]) = (buildSheetMap sheets)(sheet_Name sheet \<mapsto> sheet)"
  by (simp add: buildSheetMap_def)

lemma buildSheetMap_find:
  "buildSheetMap sheets n = find (\<lambda>t. sheet_Name t = n) (rev sheets)"
proof (induction sheets rule: rev_induct)
  case Nil
  show ?case by (simp add: buildSheetMap_def)
next
  case (snoc sheet sheets)
  then show ?case by (simp add: buildSheetMap_snoc)
qed

lemma buildSheetMap_present:
  "buildSheetMap sheets n \<noteq> None \<longleftrightarrow> n \<in> sheet_Name ` set sheets"
  by (auto simp: buildSheetMap_find find_None_iff)

lemma isProcessed_upd:
  "isProcessed (processed(n \<mapsto> b)) x = (if x = n then b else isProcessed processed x)"
  by (simp add: isProcessed_def)

lemma isProcessed_initProcessed: "\<not> isProcessed (initProcessed sheets) x"
proof -
  have "\<not> isProcessed processed x \<Longrightarrow>
        \<not> isProcessed (foldl (\<lambda>processed sheet. processed(sheet_Name sheet \<mapsto> False)) processed sheets) x"
    for processed
    by (induction sheets arbitrary: processed) (simp_all add: isProcessed_upd)
  then show ?thesis by (simp add: initProcessed_def isProcessed_def)
qed

lemma appendSourceRows_rows:
  "\<forall>n\<in>set names. sheetMap n \<noteq> None \<Longrightarrow>
   fst (appendSourceRows sheetMap names rows processed)
     = rows @ concat (map (\<lambda>n. sheet_Rows (the (sheetMap n))) names)"
  by (induction names arbitrary: rows processed) auto

lemma appendSourceRows_processed:
  "\<forall>n\<in>set names. sheetMap n \<noteq> None \<Longrightarrow>
   isProcessed (snd (appendSourceRows sheetMap names rows processed)) x
     = (x \<in> set names \<or> isProcessed processed x)"
proof (induction names arbitrary: rows processed)
  case Nil
  show ?case by simp
next
  case (Cons n names)
  then obtain sheet where "sheetMap n = Some sheet" by auto
  with Cons show ?case by (auto simp: isProcessed_upd)
qed

lemma firstSourceColumns_present:
  "\<forall>n\<in>set names. sheetMap n \<noteq> None \<Longrightarrow>
   firstSourceColumns sheetMap names
     = (case names of [] \<Rightarrow> [] | n # ns \<Rightarrow> sheet_Columns (the (sheetMap n)))"
  by (cases names) (auto simp: firstSourceColumns_def)

lemma combineLoop_combined:
  "fst (combineLoop sheetMap groups combinedSheets processed)
     = combinedSheets @
       map (\<lambda>g. \<lparr>sheet_Name = OutputName g,
                  sheet_Columns = (case SourceSheets g of [] \<Rightarrow> []
                                   | n # ns \<Rightarrow> sheet_Columns (the (sheetMap n))),
                  sheet_Rows = concat (map (\<lambda>n. sheet_Rows (the (sheetMap n))) (SourceSheets g)),
                  sheet_Meta = Map.empty\<rparr>)
           (filter (\<lambda>g. \<forall>n\<in>set (SourceSheets g). sheetMap n \<noteq> None) groups)"
proof (induction groups arbitrary: combinedSheets processed)
  case Nil
  show ?case by simp
next
  case (Cons g groups)
  show ?case
  proof (cases "\<forall>n\<in>set (SourceSheets g). sheetMap n \<noteq> None")
    case False
    then show ?thesis using Cons by (simp add: allExists_iff)
  next
    case True
    obtain rows processed' where
      a: "appendSourceRows sheetMap (SourceSheets g) [] processed = (rows, processed')"
      by (cases "appendSourceRows sheetMap (SourceSheets g) [] processed")
    have r: "rows = concat (map (\<lambda>n. sheet_Rows (the (sheetMap n))) (SourceSheets g))"
      using appendSourceRows_rows [OF True, of "[]" processed] a by simp
    show ?thesis
      using True a r Cons [of _ processed']
      by (simp add: allExists_iff firstSourceColumns_present)
  qed
qed

lemma combineLoop_processed:
  "isProcessed (snd (combineLoop sheetMap groups combinedSheets processed)) x
     = (isProcessed processed x
        \<or> (\<exists>g\<in>set groups. (\<forall>n\<in>set (SourceSheets g). sheetMap n \<noteq> None)
                            \<and> x \<in> set (SourceSheets g)))"
proof (induction groups arbitrary: combinedSheets processed)
  case Nil
  show ?case by simp
next
  case (Cons g groups)
  show ?case
  proof (cases "\<forall>n\<in>set (SourceSheets g). sheetMap n \<noteq> None")
    case False
    then show ?thesis using Cons by (auto simp: allExists_iff)
  next
    case True
    obtain rows processed' where
      a: "appendSourceRows sheetMap (SourceSheets g) [] processed = (rows, processed')"
      by (cases "appendSourceRows sheetMap (SourceSheets g) [] processed")
    have p: "isProcessed processed' x = (x \<in> set (SourceSheets g) \<or> isProcessed processed x)"
      using appendSourceRows_processed [OF True, of "[]" processed x] a by simp
    show ?thesis
      using True a p Cons [of _ processed']
      by (auto simp: allExists_iff)
  qed
qed

text \<open>
  C2, as the code has it. A name stands for the last table of the collection that carries
  it. The result is, in the order of the groups, one new table for each group whose
  sources are all present (the configured output name, the columns of the first source,
  the rows of the sources concatenated in configured order), followed by the tables of
  the collection, unchanged and in order, that are a source of no such group. A group
  with an absent source adds no table; its present sources stay, except those that
  another group, with all its sources present, has merged.
\<close>

theorem applyCombineConfig_merges_groups:
  "applyCombineConfig (Some groups) sheets
     = map (\<lambda>g. \<lparr>sheet_Name = OutputName g,
                  sheet_Columns =
                    (case SourceSheets g of [] \<Rightarrow> []
                     | n # ns \<Rightarrow> sheet_Columns (the (find (\<lambda>t. sheet_Name t = n) (rev sheets)))),
                  sheet_Rows =
                    concat (map (\<lambda>n. sheet_Rows (the (find (\<lambda>t. sheet_Name t = n) (rev sheets))))
                                (SourceSheets g)),
                  sheet_Meta = Map.empty\<rparr>)
           (filter (\<lambda>g. \<forall>n\<in>set (SourceSheets g). n \<in> sheet_Name ` set sheets) groups)
       @ filter (\<lambda>t. \<forall>g\<in>set groups.
                       (\<forall>n\<in>set (SourceSheets g). n \<in> sheet_Name ` set sheets)
                       \<longrightarrow> sheet_Name t \<notin> set (SourceSheets g))
                sheets"
proof -
  obtain combined processed where
    l: "combineLoop (buildSheetMap sheets) groups [] (initProcessed sheets) = (combined, processed)"
    by (cases "combineLoop (buildSheetMap sheets) groups [] (initProcessed sheets)")
  have m: "buildSheetMap sheets = (\<lambda>n. find (\<lambda>t. sheet_Name t = n) (rev sheets))"
    by (rule ext) (rule buildSheetMap_find)
  have pres: "(\<forall>n\<in>set names. buildSheetMap sheets n \<noteq> None)
              = (\<forall>n\<in>set names. n \<in> sheet_Name ` set sheets)" for names
    by (simp only: buildSheetMap_present)
  have "fst (combineLoop (buildSheetMap sheets) groups [] (initProcessed sheets))
     = [] @
       map (\<lambda>g. \<lparr>sheet_Name = OutputName g,
                  sheet_Columns = (case SourceSheets g of [] \<Rightarrow> []
                                   | n # ns \<Rightarrow> sheet_Columns (the (buildSheetMap sheets n))),
                  sheet_Rows = concat (map (\<lambda>n. sheet_Rows (the (buildSheetMap sheets n)))
                                           (SourceSheets g)),
                  sheet_Meta = Map.empty\<rparr>)
           (filter (\<lambda>g. \<forall>n\<in>set (SourceSheets g). buildSheetMap sheets n \<noteq> None) groups)"
    by (rule combineLoop_combined)
  then have c0: "combined
     = map (\<lambda>g. \<lparr>sheet_Name = OutputName g,
                  sheet_Columns = (case SourceSheets g of [] \<Rightarrow> []
                                   | n # ns \<Rightarrow> sheet_Columns (the (buildSheetMap sheets n))),
                  sheet_Rows = concat (map (\<lambda>n. sheet_Rows (the (buildSheetMap sheets n)))
                                           (SourceSheets g)),
                  sheet_Meta = Map.empty\<rparr>)
           (filter (\<lambda>g. \<forall>n\<in>set (SourceSheets g). buildSheetMap sheets n \<noteq> None) groups)"
    by (simp only: l fst_conv append_Nil)
  note c = c0 [unfolded pres, unfolded m]
  have p: "isProcessed processed x
     = (\<exists>g\<in>set groups. (\<forall>n\<in>set (SourceSheets g). n \<in> sheet_Name ` set sheets)
                         \<and> x \<in> set (SourceSheets g))" for x
    using combineLoop_processed [of "buildSheetMap sheets" groups "[]" "initProcessed sheets" x]
    by (simp only: l snd_conv pres isProcessed_initProcessed simp_thms)
  have f: "filter (\<lambda>sheet. \<not> isProcessed processed (sheet_Name sheet)) sheets
     = filter (\<lambda>t. \<forall>g\<in>set groups.
                       (\<forall>n\<in>set (SourceSheets g). n \<in> sheet_Name ` set sheets)
                       \<longrightarrow> sheet_Name t \<notin> set (SourceSheets g))
                sheets"
    by (rule filter_cong) (auto simp: p)
  have e: "applyCombineConfig (Some groups) sheets
          = combined @ filter (\<lambda>sheet. \<not> isProcessed processed (sheet_Name sheet)) sheets"
    by (simp add: applyCombineConfig_def l)
  show ?thesis
    by (subst e, subst f, subst c) (rule refl)
qed

theorem applyCombineConfig_merges_groups_witness:
  "applyCombineConfig (Some [groupPets, groupAll]) [items, weapons, skills]
     = [\<lparr>sheet_Name = ''all_items'', sheet_Columns = [idColumn],
         sheet_Rows = [[''id'' \<mapsto> VInt 1], [''id'' \<mapsto> VInt 2], [''id'' \<mapsto> VInt 7]],
         sheet_Meta = Map.empty\<rparr>,
        skills]"
  using applyCombineConfig_merges_groups [of "[groupPets, groupAll]" "[items, weapons, skills]"]
  by (simp add: groupPets_def groupAll_def items_def weapons_def skills_def)

text \<open>
  The claim as the spec words it fails where two groups share a source. The group
  \<open>groupPets\<close> names the absent table \<open>pets\<close>, so it adds no table; its present source
  \<open>items\<close> does not stay in the collection, because \<open>groupAll\<close> merges it.
\<close>

theorem present_source_of_skipped_group_counterexample:
  "''pets'' \<notin> set (map sheet_Name [items, weapons, skills])
   \<and> ''pets'' \<in> set (SourceSheets groupPets)
   \<and> ''items'' \<in> set (SourceSheets groupPets)
   \<and> ''items'' \<in> set (map sheet_Name [items, weapons, skills])
   \<and> map sheet_Name (applyCombineConfig (Some [groupPets, groupAll]) [items, weapons, skills])
       = [''all_items'', ''skills'']"
  by (simp add: applyCombineConfig_def buildSheetMap_def initProcessed_def isProcessed_def
        firstSourceColumns_def groupPets_def groupAll_def items_def weapons_def skills_def)

section \<open>Properties of the validator\<close>

subsection \<open>The records of one cell\<close>

lemma filter_concat_key:
  "distinct (map f xs) \<Longrightarrow> x \<in> set xs \<Longrightarrow> (\<forall>y\<in>set xs. \<forall>e\<in>set (g y). key e = f y) \<Longrightarrow>
   filter (\<lambda>e. key e = f x) (concat (map g xs)) = g x"
proof (induction xs)
  case Nil
  then show ?case by simp
next
  case (Cons y xs)
  have own: "\<forall>e\<in>set (g y). key e = f y" using Cons.prems(3) by simp
  have rest: "\<forall>z\<in>set xs. \<forall>e\<in>set (g z). key e = f z" using Cons.prems(3) by simp
  have "f y \<notin> f ` set xs" using Cons.prems(1) by simp
  then have fresh: "\<forall>z\<in>set xs. f z \<noteq> f y" by (metis imageI)
  show ?case
  proof (cases "x = y")
    case True
    have "\<forall>e\<in>set (concat (map g xs)). key e \<noteq> f y"
      using rest fresh by fastforce
    then have "filter (\<lambda>e. key e = f y) (concat (map g xs)) = []"
      by (simp add: filter_empty_conv)
    moreover have "filter (\<lambda>e. key e = f y) (g y) = g y"
      using own by (simp add: filter_id_conv)
    ultimately show ?thesis using True by simp
  next
    case False
    then have x: "x \<in> set xs" using Cons.prems(2) by simp
    then have "f x \<noteq> f y" using fresh by simp
    then have "\<forall>e\<in>set (g y). key e \<noteq> f x" using own by simp
    then have "filter (\<lambda>e. key e = f x) (g y) = []"
      by (simp add: filter_empty_conv)
    moreover have "filter (\<lambda>e. key e = f x) (concat (map g xs)) = g x"
      using Cons.IH [OF _ x rest] Cons.prems(1) by simp
    ultimately show ?thesis by simp
  qed
qed

lemma checkRequired_shape:
  "checkRequired sheetName rowIndex row col = []
   \<or> checkRequired sheetName rowIndex row col
       = [\<lparr>err_Sheet = sheetName, err_Row = rowIndex + 4, err_Column = col_Name col,
           err_Msg = msgRequired\<rparr>]"
  by (simp add: checkRequired_def)

lemma checkType_shape:
  "checkType sheetName rowIndex row col = []
   \<or> (\<exists>val. checkType sheetName rowIndex row col
          = [\<lparr>err_Sheet = sheetName, err_Row = rowIndex + 4, err_Column = col_Name col,
              err_Msg = msgType (col_Type col) val\<rparr>])"
proof (cases "row (col_Name col)")
  case None
  then show ?thesis by (simp add: checkType_def)
next
  case (Some val)
  show ?thesis
  proof (cases "validateDataType val (col_Type col)")
    case None
    with Some show ?thesis by (simp add: checkType_def)
  next
    case (Some b)
    with \<open>row (col_Name col) = Some val\<close> show ?thesis
      by (cases b) (auto simp: checkType_def)
  qed
qed

lemma checkOptions_shape:
  "checkOptions sheetName rowIndex row col = []
   \<or> checkOptions sheetName rowIndex row col
       = [\<lparr>err_Sheet = sheetName, err_Row = rowIndex + 4, err_Column = col_Name col,
           err_Msg = msgOptions (col_Options col)\<rparr>]"
proof (cases "row (col_Name col)")
  case None
  then show ?thesis by (simp add: checkOptions_def)
next
  case (Some val)
  then show ?thesis by (cases val) (simp_all add: checkOptions_def)
qed

lemma checkRequired_fields:
  "e \<in> set (checkRequired sheetName rowIndex row col) \<Longrightarrow>
   err_Sheet e = sheetName \<and> err_Row e = rowIndex + 4 \<and> err_Column e = col_Name col"
  using checkRequired_shape [of sheetName rowIndex row col] by auto

lemma checkType_fields:
  "e \<in> set (checkType sheetName rowIndex row col) \<Longrightarrow>
   err_Sheet e = sheetName \<and> err_Row e = rowIndex + 4 \<and> err_Column e = col_Name col"
  using checkType_shape [of sheetName rowIndex row col] by auto

lemma checkOptions_fields:
  "e \<in> set (checkOptions sheetName rowIndex row col) \<Longrightarrow>
   err_Sheet e = sheetName \<and> err_Row e = rowIndex + 4 \<and> err_Column e = col_Name col"
  using checkOptions_shape [of sheetName rowIndex row col] by auto

lemma validateCell_fields:
  "e \<in> set (validateCell sheetName rowIndex row col) \<Longrightarrow>
   err_Sheet e = sheetName \<and> err_Row e = rowIndex + 4 \<and> err_Column e = col_Name col"
  unfolding validateCell_def set_append Un_iff
  using checkRequired_fields checkType_fields checkOptions_fields by blast

lemma validateRows_row_ge:
  "e \<in> set (validateRows sheetName columns k rows) \<Longrightarrow> k + 4 \<le> err_Row e"
proof (induction rows arbitrary: k)
  case Nil
  then show ?case by simp
next
  case (Cons row rows)
  from Cons.prems consider
      (here) col where "col \<in> set columns" "e \<in> set (validateCell sheetName k row col)"
    | (later) "e \<in> set (validateRows sheetName columns (Suc k) rows)"
    by auto
  then show ?case
  proof cases
    case here
    then show ?thesis using validateCell_fields by fastforce
  next
    case later
    then show ?thesis using Cons.IH [of "Suc k"] by simp
  qed
qed

lemma validateRows_filter_row:
  "i < length rows \<Longrightarrow>
   filter (\<lambda>e. err_Row e = k + i + 4) (validateRows sheetName columns k rows)
     = concat (map (validateCell sheetName (k + i) (rows ! i)) columns)"
proof (induction rows arbitrary: k i)
  case Nil
  then show ?case by simp
next
  case (Cons row rows)
  show ?case
  proof (cases i)
    case 0
    have "filter (\<lambda>e. err_Row e = k + 4) (validateRows sheetName columns (Suc k) rows) = []"
      using validateRows_row_ge [of _ sheetName columns "Suc k" rows]
      by (fastforce simp: filter_empty_conv)
    moreover have "filter (\<lambda>e. err_Row e = k + 4)
                     (concat (map (validateCell sheetName k row) columns))
                   = concat (map (validateCell sheetName k row) columns)"
      using validateCell_fields by (fastforce simp: filter_id_conv)
    ultimately show ?thesis using 0 by simp
  next
    case (Suc j)
    then have j: "j < length rows" using Cons.prems by simp
    have "filter (\<lambda>e. err_Row e = k + i + 4)
            (concat (map (validateCell sheetName k row) columns)) = []"
      using validateCell_fields Suc by (fastforce simp: filter_empty_conv)
    moreover have "filter (\<lambda>e. err_Row e = Suc k + j + 4)
                     (validateRows sheetName columns (Suc k) rows)
                   = concat (map (validateCell sheetName (Suc k + j) (rows ! j)) columns)"
      by (rule Cons.IH [OF j])
    ultimately show ?thesis using Suc by simp
  qed
qed

lemma Validate_cell:
  assumes "distinct (map col_Name (sheet_Columns sheet))"
    and "i < length (sheet_Rows sheet)"
    and "col \<in> set (sheet_Columns sheet)"
  shows "filter (\<lambda>e. err_Row e = i + 4 \<and> err_Column e = col_Name col) (Validate sheet)
           = validateCell (sheet_Name sheet) i (sheet_Rows sheet ! i) col"
proof -
  have "filter (\<lambda>e. err_Row e = i + 4 \<and> err_Column e = col_Name col) (Validate sheet)
          = filter (\<lambda>e. err_Column e = col_Name col)
              (filter (\<lambda>e. err_Row e = 0 + i + 4) (Validate sheet))"
    by (simp add: conj_commute)
  also have "\<dots> = filter (\<lambda>e. err_Column e = col_Name col)
                      (concat (map (validateCell (sheet_Name sheet) (0 + i) (sheet_Rows sheet ! i))
                                   (sheet_Columns sheet)))"
    unfolding Validate_def by (simp only: validateRows_filter_row [OF assms(2)])
  also have "\<dots> = validateCell (sheet_Name sheet) (0 + i) (sheet_Rows sheet ! i) col"
    by (rule filter_concat_key [OF assms(1) assms(3)]) (simp add: validateCell_fields)
  finally show ?thesis by simp
qed

lemma validateDataType_defined:
  "val \<noteq> VNil \<Longrightarrow> validateDataType val t = Some (validTypeName (typeName val) t)"
  by (cases val) (simp_all add: validateDataType_def)

subsection \<open>Required columns\<close>

text \<open>
  C4, as the code has it, for a table whose column names are distinct. The records that
  name a row and a column whose value there is absent, null or empty are: the
  required-field record, once, when the column is required and not when it is not; never
  a type record; and one record of the enumeration check when the value is the empty
  string and the column has a non-empty enumeration that does not list the empty string.
\<close>

theorem Validate_empty_cell:
  assumes "distinct (map col_Name (sheet_Columns sheet))"
    and "i < length (sheet_Rows sheet)"
    and "col \<in> set (sheet_Columns sheet)"
    and "(sheet_Rows sheet ! i) (col_Name col) = None
         \<or> (sheet_Rows sheet ! i) (col_Name col) = Some VNil
         \<or> (sheet_Rows sheet ! i) (col_Name col) = Some (VString [])"
  shows "filter (\<lambda>e. err_Row e = i + 4 \<and> err_Column e = col_Name col) (Validate sheet)
           = (if col_Required col
                then [\<lparr>err_Sheet = sheet_Name sheet, err_Row = i + 4, err_Column = col_Name col,
                       err_Msg = msgRequired\<rparr>]
              else [])
             @ (if (sheet_Rows sheet ! i) (col_Name col) = Some (VString [])
                    \<and> col_Options col \<noteq> [] \<and> [] \<notin> set (col_Options col)
                  then [\<lparr>err_Sheet = sheet_Name sheet, err_Row = i + 4, err_Column = col_Name col,
                         err_Msg = msgOptions (col_Options col)\<rparr>]
                else [])"
proof -
  have "validateCell (sheet_Name sheet) i (sheet_Rows sheet ! i) col
           = (if col_Required col
                then [\<lparr>err_Sheet = sheet_Name sheet, err_Row = i + 4, err_Column = col_Name col,
                       err_Msg = msgRequired\<rparr>]
              else [])
             @ (if (sheet_Rows sheet ! i) (col_Name col) = Some (VString [])
                    \<and> col_Options col \<noteq> [] \<and> [] \<notin> set (col_Options col)
                  then [\<lparr>err_Sheet = sheet_Name sheet, err_Row = i + 4, err_Column = col_Name col,
                         err_Msg = msgOptions (col_Options col)\<rparr>]
                else [])"
    using assms(4)
    by (auto simp: validateCell_def checkRequired_def checkType_def checkOptions_def
          list_ex_iff)
  then show ?thesis by (simp only: Validate_cell [OF assms(1-3)])
qed

theorem Validate_empty_cell_witness:
  "distinct (map col_Name (sheet_Columns loot))
   \<and> 0 < length (sheet_Rows loot)
   \<and> nameColumn \<in> set (sheet_Columns loot)
   \<and> (sheet_Rows loot ! 0) (col_Name nameColumn) = Some VNil
   \<and> col_Required nameColumn
   \<and> filter (\<lambda>e. err_Row e = 0 + 4 \<and> err_Column e = col_Name nameColumn) (Validate loot)
       = [\<lparr>err_Sheet = ''loot'', err_Row = 4, err_Column = ''name'', err_Msg = msgRequired\<rparr>]
   \<and> distinct (map col_Name (sheet_Columns typedItems))
   \<and> 2 < length (sheet_Rows typedItems)
   \<and> typeColumn \<in> set (sheet_Columns typedItems)
   \<and> (sheet_Rows typedItems ! 2) (col_Name typeColumn) = Some VNil
   \<and> \<not> col_Required typeColumn
   \<and> filter (\<lambda>e. err_Row e = 2 + 4 \<and> err_Column e = col_Name typeColumn) (Validate typedItems)
       = []"
proof -
  have d: "distinct (map col_Name (sheet_Columns loot))"
    by (simp add: loot_def idColumn_def nameColumn_def rarityColumn_def)
  have i: "0 < length (sheet_Rows loot)" by (simp add: loot_def)
  have c: "nameColumn \<in> set (sheet_Columns loot)" by (simp add: loot_def)
  have v: "(sheet_Rows loot ! 0) (col_Name nameColumn) = Some VNil"
    by (simp add: loot_def nameColumn_def)
  then have v': "(sheet_Rows loot ! 0) (col_Name nameColumn) = None
         \<or> (sheet_Rows loot ! 0) (col_Name nameColumn) = Some VNil
         \<or> (sheet_Rows loot ! 0) (col_Name nameColumn) = Some (VString [])"
    by simp
  have r: "col_Required nameColumn" by (simp add: nameColumn_def)
  have e: "filter (\<lambda>e. err_Row e = 0 + 4 \<and> err_Column e = col_Name nameColumn) (Validate loot)
       = [\<lparr>err_Sheet = ''loot'', err_Row = 4, err_Column = ''name'', err_Msg = msgRequired\<rparr>]"
    using Validate_empty_cell [OF d i c v'] v r by (simp add: loot_def nameColumn_def)
  have d2: "distinct (map col_Name (sheet_Columns typedItems))"
    by (simp add: typedItems_def idColumn_def typeColumn_def)
  have i2: "2 < length (sheet_Rows typedItems)" by (simp add: typedItems_def)
  have c2: "typeColumn \<in> set (sheet_Columns typedItems)" by (simp add: typedItems_def)
  have v2: "(sheet_Rows typedItems ! 2) (col_Name typeColumn) = Some VNil"
    by (simp add: typedItems_def typeColumn_def)
  then have v2': "(sheet_Rows typedItems ! 2) (col_Name typeColumn) = None
         \<or> (sheet_Rows typedItems ! 2) (col_Name typeColumn) = Some VNil
         \<or> (sheet_Rows typedItems ! 2) (col_Name typeColumn) = Some (VString [])"
    by simp
  have r2: "\<not> col_Required typeColumn" by (simp add: typeColumn_def)
  have e2: "filter (\<lambda>e. err_Row e = 2 + 4 \<and> err_Column e = col_Name typeColumn)
              (Validate typedItems) = []"
    using Validate_empty_cell [OF d2 i2 c2 v2'] v2 r2 by simp
  from d i c v r e d2 i2 c2 v2 r2 e2 show ?thesis by (intro conjI)
qed

text \<open>
  The claim as the spec words it fails for the enumeration: the column \<open>rarity\<close> of
  \<open>loot\<close> is not required and its value in the first data row is the empty string,
  yet \<open>Validate\<close> gives a record for that row and column (the second one below).
\<close>

theorem optional_empty_cell_counterexample:
  "\<not> col_Required rarityColumn
   \<and> (sheet_Rows loot ! 0) (col_Name rarityColumn) = Some (VString [])
   \<and> Validate loot
       = [\<lparr>err_Sheet = ''loot'', err_Row = 4, err_Column = ''name'', err_Msg = msgRequired\<rparr>,
          \<lparr>err_Sheet = ''loot'', err_Row = 4, err_Column = ''rarity'',
           err_Msg = msgOptions [''common'', ''rare'']\<rparr>]"
  by (simp add: Validate_def validateCell_def checkRequired_def checkType_def checkOptions_def
        validateDataType_def validTypeName_def
        loot_def idColumn_def nameColumn_def rarityColumn_def)

subsection \<open>Numeric values in numeric columns\<close>

text \<open>
  C6, as the code has it, for a table whose column names are distinct and a cell that
  holds a value. A \<open>float64\<close> is accepted in every numeric column (\<open>int\<close>, \<open>integer\<close>,
  \<open>float\<close>, \<open>double\<close>, \<open>number\<close>) and an \<open>int\<close> in an integer column (\<open>int\<close>,
  \<open>integer\<close>): no record names the cell. An \<open>int\<close> in a floating-point column
  (\<open>float\<close>, \<open>double\<close>, \<open>number\<close>) is a type mismatch, as a \<open>bool\<close> or a string
  that is not empty is in any numeric column.
\<close>

theorem Validate_numeric_cell:
  assumes "distinct (map col_Name (sheet_Columns sheet))"
    and "i < length (sheet_Rows sheet)"
    and "col \<in> set (sheet_Columns sheet)"
    and "(sheet_Rows sheet ! i) (col_Name col) = Some val"
    and "col_Type col \<in> {''int'', ''integer'', ''float'', ''double'', ''number''}"
  shows "(val = VFloat x \<longrightarrow>
            filter (\<lambda>e. err_Row e = i + 4 \<and> err_Column e = col_Name col) (Validate sheet) = [])
       \<and> (val = VInt n \<and> col_Type col \<in> {''int'', ''integer''} \<longrightarrow>
            filter (\<lambda>e. err_Row e = i + 4 \<and> err_Column e = col_Name col) (Validate sheet) = [])
       \<and> (val = VInt n \<and> col_Type col \<in> {''float'', ''double'', ''number''} \<longrightarrow>
            filter (\<lambda>e. err_Row e = i + 4 \<and> err_Column e = col_Name col) (Validate sheet)
              = [\<lparr>err_Sheet = sheet_Name sheet, err_Row = i + 4, err_Column = col_Name col,
                  err_Msg = msgType (col_Type col) val\<rparr>])
       \<and> (val = VBool b \<longrightarrow>
            filter (\<lambda>e. err_Row e = i + 4 \<and> err_Column e = col_Name col) (Validate sheet)
              = [\<lparr>err_Sheet = sheet_Name sheet, err_Row = i + 4, err_Column = col_Name col,
                  err_Msg = msgType (col_Type col) val\<rparr>])
       \<and> (val = VString s \<and> s \<noteq> [] \<longrightarrow>
            filter (\<lambda>e. err_Row e = i + 4 \<and> err_Column e = col_Name col) (Validate sheet)
              = \<lparr>err_Sheet = sheet_Name sheet, err_Row = i + 4, err_Column = col_Name col,
                  err_Msg = msgType (col_Type col) val\<rparr>
                # checkOptions (sheet_Name sheet) i (sheet_Rows sheet ! i) col)"
proof -
  have cell: "filter (\<lambda>e. err_Row e = i + 4 \<and> err_Column e = col_Name col) (Validate sheet)
           = validateCell (sheet_Name sheet) i (sheet_Rows sheet ! i) col"
    by (rule Validate_cell [OF assms(1-3)])
  have req: "val \<noteq> VNil \<Longrightarrow> val \<noteq> VString [] \<Longrightarrow>
             checkRequired (sheet_Name sheet) i (sheet_Rows sheet ! i) col = []"
    using assms(4) by (simp add: checkRequired_def)
  have opt: "\<forall>t. val \<noteq> VString t \<Longrightarrow>
             checkOptions (sheet_Name sheet) i (sheet_Rows sheet ! i) col = []"
    using assms(4) by (cases val) (simp_all add: checkOptions_def)
  have ty: "val \<noteq> VNil \<Longrightarrow> val \<noteq> VString [] \<Longrightarrow>
            checkType (sheet_Name sheet) i (sheet_Rows sheet ! i) col
              = (if validTypeName (typeName val) (col_Type col) then []
                 else [\<lparr>err_Sheet = sheet_Name sheet, err_Row = i + 4, err_Column = col_Name col,
                        err_Msg = msgType (col_Type col) val\<rparr>])"
    using assms(4) by (simp add: checkType_def validateDataType_defined)
  show ?thesis
    unfolding cell validateCell_def
    using assms(5) by (auto simp: req opt ty validTypeName_def)
qed

theorem Validate_numeric_cell_witness:
  "distinct (map col_Name (sheet_Columns prices))
   \<and> 0 < length (sheet_Rows prices)
   \<and> priceColumn \<in> set (sheet_Columns prices)
   \<and> (sheet_Rows prices ! 0) (col_Name priceColumn) = Some (VInt 5)
   \<and> col_Type priceColumn = ''float''
   \<and> filter (\<lambda>e. err_Row e = 0 + 4 \<and> err_Column e = col_Name priceColumn) (Validate prices)
       = [\<lparr>err_Sheet = ''prices'', err_Row = 4, err_Column = ''price'',
           err_Msg = msgType ''float'' (VInt 5)\<rparr>]
   \<and> distinct (map col_Name (sheet_Columns levels))
   \<and> 0 < length (sheet_Rows levels)
   \<and> levelColumn \<in> set (sheet_Columns levels)
   \<and> (sheet_Rows levels ! 0) (col_Name levelColumn) = Some (VFloat 0x4000000000000000)
   \<and> col_Type levelColumn = ''int''
   \<and> filter (\<lambda>e. err_Row e = 0 + 4 \<and> err_Column e = col_Name levelColumn) (Validate levels)
       = []"
proof -
  have d: "distinct (map col_Name (sheet_Columns prices))"
    by (simp add: prices_def idColumn_def priceColumn_def)
  have i: "0 < length (sheet_Rows prices)" by (simp add: prices_def)
  have c: "priceColumn \<in> set (sheet_Columns prices)" by (simp add: prices_def)
  have v: "(sheet_Rows prices ! 0) (col_Name priceColumn) = Some (VInt 5)"
    by (simp add: prices_def priceColumn_def)
  have t: "col_Type priceColumn = ''float''" by (simp add: priceColumn_def)
  then have t': "col_Type priceColumn \<in> {''int'', ''integer'', ''float'', ''double'', ''number''}"
    by simp
  have e: "filter (\<lambda>e. err_Row e = 0 + 4 \<and> err_Column e = col_Name priceColumn) (Validate prices)
       = [\<lparr>err_Sheet = ''prices'', err_Row = 4, err_Column = ''price'',
           err_Msg = msgType ''float'' (VInt 5)\<rparr>]"
    using Validate_numeric_cell [OF d i c v t', where n = 5] t
    by (simp add: prices_def priceColumn_def)
  have d2: "distinct (map col_Name (sheet_Columns levels))"
    by (simp add: levels_def idColumn_def levelColumn_def)
  have i2: "0 < length (sheet_Rows levels)" by (simp add: levels_def)
  have c2: "levelColumn \<in> set (sheet_Columns levels)" by (simp add: levels_def)
  have v2: "(sheet_Rows levels ! 0) (col_Name levelColumn) = Some (VFloat 0x4000000000000000)"
    by (simp add: levels_def levelColumn_def)
  have t2: "col_Type levelColumn = ''int''" by (simp add: levelColumn_def)
  then have t2': "col_Type levelColumn \<in> {''int'', ''integer'', ''float'', ''double'', ''number''}"
    by simp
  have e2: "filter (\<lambda>e. err_Row e = 0 + 4 \<and> err_Column e = col_Name levelColumn) (Validate levels)
       = []"
    using Validate_numeric_cell [OF d2 i2 c2 v2 t2', where x = "0x4000000000000000"] by simp
  from d i c v t e d2 i2 c2 v2 t2 e2 show ?thesis by (intro conjI)
qed

text \<open>
  The claim as the spec words it fails from integers to floating-point columns: the value
  \<open>5\<close> of type \<open>int\<close> under a column declared \<open>float\<close> is rejected by
  \<open>validateDataType\<close>, and \<open>Validate\<close> gives a type-mismatch record for it.
\<close>

theorem int_in_float_column_counterexample:
  "validateDataType (VInt 5) ''float'' = Some False
   \<and> Validate prices
       = [\<lparr>err_Sheet = ''prices'', err_Row = 4, err_Column = ''price'',
           err_Msg = msgType ''float'' (VInt 5)\<rparr>]"
  by (simp add: Validate_def validateCell_def checkRequired_def checkType_def checkOptions_def
        validateDataType_def validTypeName_def prices_def idColumn_def priceColumn_def)

subsection \<open>Foreign keys\<close>

lemma find_distinct_key:
  "distinct (map f xs) \<Longrightarrow> x \<in> set xs \<Longrightarrow> find (\<lambda>y. f y = f x) xs = Some x"
proof (induction xs)
  case Nil
  then show ?case by simp
next
  case (Cons y xs)
  have "f y \<notin> f ` set xs" using Cons.prems(1) by simp
  then have fresh: "\<forall>z\<in>set xs. f z \<noteq> f y" by (metis imageI)
  show ?case
  proof (cases "x = y")
    case True
    then show ?thesis by simp
  next
    case False
    then have x: "x \<in> set xs" using Cons.prems(2) by simp
    then have "f y \<noteq> f x" using fresh by metis
    then show ?thesis using Cons.IH [OF _ x] Cons.prems(1) by simp
  qed
qed

lemma buildRefIndex_snoc:
  "buildRefIndex (sheets @ [sheet]) = (buildRefIndex sheets)(sheet_Name sheet \<mapsto> primaryKeys sheet)"
  by (simp add: buildRefIndex_def)

lemma buildRefIndex_find:
  "buildRefIndex sheets n = map_option primaryKeys (find (\<lambda>t. sheet_Name t = n) (rev sheets))"
proof (induction sheets rule: rev_induct)
  case Nil
  show ?case by (simp add: buildRefIndex_def)
next
  case (snoc sheet sheets)
  then show ?case by (simp add: buildRefIndex_snoc)
qed

lemma buildRefIndex_absent:
  "n \<notin> sheet_Name ` set sheets \<Longrightarrow> buildRefIndex sheets n = None"
  by (auto simp: buildRefIndex_find find_None_iff)

lemma buildRefIndex_present:
  assumes "distinct (map sheet_Name sheets)" and "target \<in> set sheets"
  shows "buildRefIndex sheets (sheet_Name target) = Some (primaryKeys target)"
proof -
  have "distinct (map sheet_Name (rev sheets))" using assms(1) by (simp add: rev_map [symmetric])
  moreover have "target \<in> set (rev sheets)" using assms(2) by simp
  ultimately have "find (\<lambda>t. sheet_Name t = sheet_Name target) (rev sheets) = Some target"
    by (rule find_distinct_key)
  then show ?thesis by (simp add: buildRefIndex_find)
qed

lemma rowKey_hasKey:
  "hasKey (rowKey primaryKey row) val
     \<longleftrightarrow> (\<exists>k. row primaryKey = Some k \<and> k \<noteq> VNil \<and> go_eq k val)"
  by (cases "row primaryKey") (simp_all add: rowKey_def hasKey_def)

lemma hasKey_concat:
  "hasKey (concat (map f rows)) val \<longleftrightarrow> (\<exists>row\<in>set rows. hasKey (f row) val)"
  by (induction rows) (simp_all add: hasKey_def)

lemma hasKey_primaryKeys:
  "hasKey (primaryKeys target) val
     \<longleftrightarrow> (sheet_Columns target \<noteq> []
          \<and> (\<exists>row\<in>set (sheet_Rows target). \<exists>k.
                row (col_Name (hd (sheet_Columns target))) = Some k \<and> k \<noteq> VNil \<and> go_eq k val))"
proof (cases "sheet_Columns target")
  case Nil
  then show ?thesis by (simp add: primaryKeys_def hasKey_def)
next
  case (Cons first rest)
  then show ?thesis by (simp add: primaryKeys_def hasKey_concat rowKey_hasKey)
qed

lemma checkRef_shape:
  "checkRef ff keys sheetName col refSheet rowIndex row = []
   \<or> (\<exists>val. checkRef ff keys sheetName col refSheet rowIndex row
          = [\<lparr>err_Sheet = sheetName, err_Row = rowIndex + 4, err_Column = col_Name col,
              err_Msg = msgRefValue ff val refSheet\<rparr>])"
  by (cases "row (col_Name col)") (auto simp: checkRef_def)

lemma checkRef_fields:
  "e \<in> set (checkRef ff keys sheetName col refSheet rowIndex row) \<Longrightarrow>
   err_Sheet e = sheetName \<and> err_Row e = rowIndex + 4 \<and> err_Column e = col_Name col"
  using checkRef_shape [of ff keys sheetName col refSheet rowIndex row] by auto

lemma refRows_fields:
  "e \<in> set (refRows ff keys sheetName col refSheet k rows) \<Longrightarrow>
   err_Sheet e = sheetName \<and> err_Column e = col_Name col
   \<and> k + 4 \<le> err_Row e \<and> err_Row e < k + length rows + 4"
proof (induction rows arbitrary: k)
  case Nil
  then show ?case by simp
next
  case (Cons row rows)
  from Cons.prems consider
      (here) "e \<in> set (checkRef ff keys sheetName col refSheet k row)"
    | (later) "e \<in> set (refRows ff keys sheetName col refSheet (Suc k) rows)"
    by auto
  then show ?case
  proof cases
    case here
    then show ?thesis using checkRef_fields by fastforce
  next
    case later
    then show ?thesis using Cons.IH [of "Suc k"] by simp
  qed
qed

lemma refRows_filter_row:
  "i < length rows \<Longrightarrow>
   filter (\<lambda>e. err_Row e = k + i + 4) (refRows ff keys sheetName col refSheet k rows)
     = checkRef ff keys sheetName col refSheet (k + i) (rows ! i)"
proof (induction rows arbitrary: k i)
  case Nil
  then show ?case by simp
next
  case (Cons row rows)
  show ?case
  proof (cases i)
    case 0
    have "filter (\<lambda>e. err_Row e = k + 4) (refRows ff keys sheetName col refSheet (Suc k) rows) = []"
      using refRows_fields [of _ ff keys sheetName col refSheet "Suc k" rows]
      by (fastforce simp: filter_empty_conv)
    moreover have "filter (\<lambda>e. err_Row e = k + 4) (checkRef ff keys sheetName col refSheet k row)
                   = checkRef ff keys sheetName col refSheet k row"
      using checkRef_fields by (fastforce simp: filter_id_conv)
    ultimately show ?thesis using 0 by simp
  next
    case (Suc j)
    then have j: "j < length rows" using Cons.prems by simp
    have "filter (\<lambda>e. err_Row e = k + i + 4) (checkRef ff keys sheetName col refSheet k row) = []"
      using checkRef_fields Suc by (fastforce simp: filter_empty_conv)
    moreover have "filter (\<lambda>e. err_Row e = Suc k + j + 4)
                     (refRows ff keys sheetName col refSheet (Suc k) rows)
                   = checkRef ff keys sheetName col refSheet (Suc k + j) (rows ! j)"
      by (rule Cons.IH [OF j])
    ultimately show ?thesis using Suc by simp
  qed
qed

lemma refColumn_fields:
  "e \<in> set (refColumn ff refIndex sheet col) \<Longrightarrow>
   err_Sheet e = sheet_Name sheet \<and> err_Column e = col_Name col"
proof (cases "col_Ref col")
  case None
  then show "e \<in> set (refColumn ff refIndex sheet col) \<Longrightarrow> ?thesis"
    by (simp add: refColumn_def)
next
  case (Some ref)
  assume e: "e \<in> set (refColumn ff refIndex sheet col)"
  show ?thesis
  proof (cases "refIndex (ref_Sheet ref)")
    case None
    with Some e show ?thesis by (simp add: refColumn_def)
  next
    case (Some keys)
    with \<open>col_Ref col = Some ref\<close> e show ?thesis
      using refRows_fields [of e ff keys "sheet_Name sheet" col "ref_Sheet ref" 0 "sheet_Rows sheet"]
      by (simp add: refColumn_def)
  qed
qed

lemma ValidateRef_of_column:
  assumes "distinct (map sheet_Name sheets)"
    and "sheet \<in> set sheets"
    and "distinct (map col_Name (sheet_Columns sheet))"
    and "col \<in> set (sheet_Columns sheet)"
  shows "filter (\<lambda>e. err_Sheet e = sheet_Name sheet \<and> err_Column e = col_Name col)
           (ValidateRef ff sheets)
         = refColumn ff (buildRefIndex sheets) sheet col"
proof -
  let ?g = "\<lambda>sheet. concat (map (refColumn ff (buildRefIndex sheets) sheet) (sheet_Columns sheet))"
  have sheetKey: "\<forall>y\<in>set sheets. \<forall>e\<in>set (?g y). err_Sheet e = sheet_Name y"
    using refColumn_fields by fastforce
  have "filter (\<lambda>e. err_Sheet e = sheet_Name sheet \<and> err_Column e = col_Name col)
          (ValidateRef ff sheets)
        = filter (\<lambda>e. err_Column e = col_Name col)
            (filter (\<lambda>e. err_Sheet e = sheet_Name sheet) (concat (map ?g sheets)))"
    by (simp add: ValidateRef_def conj_commute)
  also have "\<dots> = filter (\<lambda>e. err_Column e = col_Name col) (?g sheet)"
    by (simp only: filter_concat_key [OF assms(1) assms(2) sheetKey])
  also have "\<dots> = refColumn ff (buildRefIndex sheets) sheet col"
    by (rule filter_concat_key [OF assms(3) assms(4)]) (simp add: refColumn_fields)
  finally show ?thesis .
qed

lemma go_eq_plain: "\<forall>x. val \<noteq> VFloat x \<Longrightarrow> go_eq k val \<longleftrightarrow> k = val"
  by (cases k; cases val) simp_all

text \<open>
  C3. In a collection whose table names are distinct, for a column (of a table whose
  column names are distinct) that carries a reference: when no table has the referenced
  name, the records that name the table and the column are one record with no row
  (\<open>Row\<close> is 0); when a table has it, every such record names a data row, and the
  records that name row \<open>i\<close> are exactly one when the value there is neither absent nor
  nil and equals no value that a row of the referenced table holds, not nil, under its
  first column, and none otherwise. Equality is that of Go's interface values, by which
  the index of keys is searched; for every value that is not a float it is plain
  equality (\<open>go_eq_plain\<close>).
\<close>

theorem ValidateRef_column:
  assumes "distinct (map sheet_Name sheets)"
    and "sheet \<in> set sheets"
    and "distinct (map col_Name (sheet_Columns sheet))"
    and "col \<in> set (sheet_Columns sheet)"
    and "col_Ref col = Some ref"
  shows "(ref_Sheet ref \<notin> sheet_Name ` set sheets \<longrightarrow>
            filter (\<lambda>e. err_Sheet e = sheet_Name sheet \<and> err_Column e = col_Name col)
              (ValidateRef ff sheets)
            = [\<lparr>err_Sheet = sheet_Name sheet, err_Row = 0, err_Column = col_Name col,
                err_Msg = msgRefSheet (ref_Sheet ref)\<rparr>])
       \<and> (\<forall>target\<in>set sheets. sheet_Name target = ref_Sheet ref \<longrightarrow>
            (\<forall>e\<in>set (filter (\<lambda>e. err_Sheet e = sheet_Name sheet \<and> err_Column e = col_Name col)
                         (ValidateRef ff sheets)).
                4 \<le> err_Row e \<and> err_Row e < length (sheet_Rows sheet) + 4)
            \<and> (\<forall>i<length (sheet_Rows sheet).
                  filter (\<lambda>e. err_Row e = i + 4)
                    (filter (\<lambda>e. err_Sheet e = sheet_Name sheet \<and> err_Column e = col_Name col)
                       (ValidateRef ff sheets))
                  = (case (sheet_Rows sheet ! i) (col_Name col) of
                       None \<Rightarrow> []
                     | Some val \<Rightarrow>
                         if val \<noteq> VNil
                            \<and> \<not> (sheet_Columns target \<noteq> []
                                  \<and> (\<exists>row\<in>set (sheet_Rows target). \<exists>k.
                                        row (col_Name (hd (sheet_Columns target))) = Some k
                                        \<and> k \<noteq> VNil \<and> go_eq k val))
                           then [\<lparr>err_Sheet = sheet_Name sheet, err_Row = i + 4,
                                  err_Column = col_Name col,
                                  err_Msg = msgRefValue ff val (ref_Sheet ref)\<rparr>]
                         else [])))"
proof (rule conjI)
  show "ref_Sheet ref \<notin> sheet_Name ` set sheets \<longrightarrow>
            filter (\<lambda>e. err_Sheet e = sheet_Name sheet \<and> err_Column e = col_Name col)
              (ValidateRef ff sheets)
            = [\<lparr>err_Sheet = sheet_Name sheet, err_Row = 0, err_Column = col_Name col,
                err_Msg = msgRefSheet (ref_Sheet ref)\<rparr>]"
  proof (rule impI)
    assume "ref_Sheet ref \<notin> sheet_Name ` set sheets"
    then have "buildRefIndex sheets (ref_Sheet ref) = None" by (rule buildRefIndex_absent)
    then show "filter (\<lambda>e. err_Sheet e = sheet_Name sheet \<and> err_Column e = col_Name col)
                (ValidateRef ff sheets)
              = [\<lparr>err_Sheet = sheet_Name sheet, err_Row = 0, err_Column = col_Name col,
                  err_Msg = msgRefSheet (ref_Sheet ref)\<rparr>]"
      by (simp add: ValidateRef_of_column [OF assms(1-4)] refColumn_def assms(5))
  qed
next
  have main: "(\<forall>e\<in>set (filter (\<lambda>e. err_Sheet e = sheet_Name sheet \<and> err_Column e = col_Name col)
                         (ValidateRef ff sheets)).
                4 \<le> err_Row e \<and> err_Row e < length (sheet_Rows sheet) + 4)
            \<and> (\<forall>i<length (sheet_Rows sheet).
                  filter (\<lambda>e. err_Row e = i + 4)
                    (filter (\<lambda>e. err_Sheet e = sheet_Name sheet \<and> err_Column e = col_Name col)
                       (ValidateRef ff sheets))
                  = (case (sheet_Rows sheet ! i) (col_Name col) of
                       None \<Rightarrow> []
                     | Some val \<Rightarrow>
                         if val \<noteq> VNil
                            \<and> \<not> (sheet_Columns target \<noteq> []
                                  \<and> (\<exists>row\<in>set (sheet_Rows target). \<exists>k.
                                        row (col_Name (hd (sheet_Columns target))) = Some k
                                        \<and> k \<noteq> VNil \<and> go_eq k val))
                           then [\<lparr>err_Sheet = sheet_Name sheet, err_Row = i + 4,
                                  err_Column = col_Name col,
                                  err_Msg = msgRefValue ff val (ref_Sheet ref)\<rparr>]
                         else []))"
    if t: "target \<in> set sheets" and n: "sheet_Name target = ref_Sheet ref" for target
  proof -
    have idx: "buildRefIndex sheets (ref_Sheet ref) = Some (primaryKeys target)"
      using buildRefIndex_present [OF assms(1) t] n by simp
    have col: "filter (\<lambda>e. err_Sheet e = sheet_Name sheet \<and> err_Column e = col_Name col)
                 (ValidateRef ff sheets)
               = refRows ff (primaryKeys target) (sheet_Name sheet) col (ref_Sheet ref) 0
                   (sheet_Rows sheet)"
      by (simp add: ValidateRef_of_column [OF assms(1-4)] refColumn_def assms(5) idx)
    have range: "4 \<le> err_Row e \<and> err_Row e < length (sheet_Rows sheet) + 4"
      if "e \<in> set (refRows ff (primaryKeys target) (sheet_Name sheet) col (ref_Sheet ref) 0
                     (sheet_Rows sheet))" for e
      using refRows_fields [OF that] by simp
    have row: "filter (\<lambda>e. err_Row e = i + 4)
            (refRows ff (primaryKeys target) (sheet_Name sheet) col (ref_Sheet ref) 0
               (sheet_Rows sheet))
          = (case (sheet_Rows sheet ! i) (col_Name col) of
                       None \<Rightarrow> []
                     | Some val \<Rightarrow>
                         if val \<noteq> VNil
                            \<and> \<not> (sheet_Columns target \<noteq> []
                                  \<and> (\<exists>row\<in>set (sheet_Rows target). \<exists>k.
                                        row (col_Name (hd (sheet_Columns target))) = Some k
                                        \<and> k \<noteq> VNil \<and> go_eq k val))
                           then [\<lparr>err_Sheet = sheet_Name sheet, err_Row = i + 4,
                                  err_Column = col_Name col,
                                  err_Msg = msgRefValue ff val (ref_Sheet ref)\<rparr>]
                         else [])"
      if i: "i < length (sheet_Rows sheet)" for i
    proof -
      have "filter (\<lambda>e. err_Row e = 0 + i + 4)
              (refRows ff (primaryKeys target) (sheet_Name sheet) col (ref_Sheet ref) 0
                 (sheet_Rows sheet))
            = checkRef ff (primaryKeys target) (sheet_Name sheet) col (ref_Sheet ref) (0 + i)
                (sheet_Rows sheet ! i)"
        by (rule refRows_filter_row [OF i])
      then show ?thesis
        by (cases "(sheet_Rows sheet ! i) (col_Name col)")
           (simp_all add: checkRef_def hasKey_primaryKeys)
    qed
    show ?thesis
      unfolding col using range row by blast
  qed
  then show "\<forall>target\<in>set sheets. sheet_Name target = ref_Sheet ref \<longrightarrow>
            (\<forall>e\<in>set (filter (\<lambda>e. err_Sheet e = sheet_Name sheet \<and> err_Column e = col_Name col)
                         (ValidateRef ff sheets)).
                4 \<le> err_Row e \<and> err_Row e < length (sheet_Rows sheet) + 4)
            \<and> (\<forall>i<length (sheet_Rows sheet).
                  filter (\<lambda>e. err_Row e = i + 4)
                    (filter (\<lambda>e. err_Sheet e = sheet_Name sheet \<and> err_Column e = col_Name col)
                       (ValidateRef ff sheets))
                  = (case (sheet_Rows sheet ! i) (col_Name col) of
                       None \<Rightarrow> []
                     | Some val \<Rightarrow>
                         if val \<noteq> VNil
                            \<and> \<not> (sheet_Columns target \<noteq> []
                                  \<and> (\<exists>row\<in>set (sheet_Rows target). \<exists>k.
                                        row (col_Name (hd (sheet_Columns target))) = Some k
                                        \<and> k \<noteq> VNil \<and> go_eq k val))
                           then [\<lparr>err_Sheet = sheet_Name sheet, err_Row = i + 4,
                                  err_Column = col_Name col,
                                  err_Msg = msgRefValue ff val (ref_Sheet ref)\<rparr>]
                         else []))"
    by blast
qed

theorem ValidateRef_column_witness:
  "distinct (map sheet_Name [typedItems, types])
   \<and> typedItems \<in> set [typedItems, types]
   \<and> distinct (map col_Name (sheet_Columns typedItems))
   \<and> typeColumn \<in> set (sheet_Columns typedItems)
   \<and> col_Ref typeColumn = Some \<lparr>ref_Sheet = ''types'', ref_Column = ''id''\<rparr>
   \<and> types \<in> set [typedItems, types]
   \<and> sheet_Name types = ''types''
   \<and> 0 < length (sheet_Rows typedItems)
   \<and> filter (\<lambda>e. err_Row e = 0 + 4)
        (filter (\<lambda>e. err_Sheet e = sheet_Name typedItems \<and> err_Column e = col_Name typeColumn)
           (ValidateRef noFormat [typedItems, types]))
       = [\<lparr>err_Sheet = ''items'', err_Row = 4, err_Column = ''type'',
           err_Msg = msgRefValue noFormat (VInt 4) ''types''\<rparr>]
   \<and> ''types'' \<notin> sheet_Name ` set [typedItems]
   \<and> filter (\<lambda>e. err_Sheet e = sheet_Name typedItems \<and> err_Column e = col_Name typeColumn)
        (ValidateRef noFormat [typedItems])
       = [\<lparr>err_Sheet = ''items'', err_Row = 0, err_Column = ''type'',
           err_Msg = msgRefSheet ''types''\<rparr>]"
proof -
  let ?ref = "\<lparr>ref_Sheet = ''types'', ref_Column = ''id''\<rparr>"
  have d: "distinct (map sheet_Name [typedItems, types])"
    by (simp add: typedItems_def types_def)
  have s: "typedItems \<in> set [typedItems, types]" by simp
  have dc: "distinct (map col_Name (sheet_Columns typedItems))"
    by (simp add: typedItems_def idColumn_def typeColumn_def)
  have c: "typeColumn \<in> set (sheet_Columns typedItems)" by (simp add: typedItems_def)
  have r: "col_Ref typeColumn = Some ?ref" by (simp add: typeColumn_def)
  have t: "types \<in> set [typedItems, types]" by simp
  have n: "sheet_Name types = ''types''" by (simp add: types_def)
  then have n': "sheet_Name types = ref_Sheet ?ref" by simp
  have i: "0 < length (sheet_Rows typedItems)" by (simp add: typedItems_def)
  from ValidateRef_column [OF d s dc c r, of noFormat] t n' i
  have "filter (\<lambda>e. err_Row e = 0 + 4)
          (filter (\<lambda>e. err_Sheet e = sheet_Name typedItems \<and> err_Column e = col_Name typeColumn)
             (ValidateRef noFormat [typedItems, types]))
        = (case (sheet_Rows typedItems ! 0) (col_Name typeColumn) of
             None \<Rightarrow> []
           | Some val \<Rightarrow>
               if val \<noteq> VNil
                  \<and> \<not> (sheet_Columns types \<noteq> []
                        \<and> (\<exists>row\<in>set (sheet_Rows types). \<exists>k.
                              row (col_Name (hd (sheet_Columns types))) = Some k
                              \<and> k \<noteq> VNil \<and> go_eq k val))
                 then [\<lparr>err_Sheet = sheet_Name typedItems, err_Row = 0 + 4,
                        err_Column = col_Name typeColumn,
                        err_Msg = msgRefValue noFormat val (ref_Sheet ?ref)\<rparr>]
               else [])"
    by blast
  also have "\<dots> = [\<lparr>err_Sheet = ''items'', err_Row = 4, err_Column = ''type'',
                     err_Msg = msgRefValue noFormat (VInt 4) ''types''\<rparr>]"
    by (simp add: typedItems_def types_def typeColumn_def idColumn_def)
  finally have e: "filter (\<lambda>e. err_Row e = 0 + 4)
        (filter (\<lambda>e. err_Sheet e = sheet_Name typedItems \<and> err_Column e = col_Name typeColumn)
           (ValidateRef noFormat [typedItems, types]))
       = [\<lparr>err_Sheet = ''items'', err_Row = 4, err_Column = ''type'',
           err_Msg = msgRefValue noFormat (VInt 4) ''types''\<rparr>]" .
  have d1: "distinct (map sheet_Name [typedItems])" by simp
  have s1: "typedItems \<in> set [typedItems]" by simp
  have a: "''types'' \<notin> sheet_Name ` set [typedItems]" by (simp add: typedItems_def)
  then have a': "ref_Sheet ?ref \<notin> sheet_Name ` set [typedItems]" by simp
  from ValidateRef_column [OF d1 s1 dc c r, of noFormat] a'
  have "filter (\<lambda>e. err_Sheet e = sheet_Name typedItems \<and> err_Column e = col_Name typeColumn)
          (ValidateRef noFormat [typedItems])
        = [\<lparr>err_Sheet = sheet_Name typedItems, err_Row = 0, err_Column = col_Name typeColumn,
            err_Msg = msgRefSheet (ref_Sheet ?ref)\<rparr>]"
    by blast
  then have e1: "filter (\<lambda>e. err_Sheet e = sheet_Name typedItems \<and> err_Column e = col_Name typeColumn)
        (ValidateRef noFormat [typedItems])
       = [\<lparr>err_Sheet = ''items'', err_Row = 0, err_Column = ''type'',
           err_Msg = msgRefSheet ''types''\<rparr>]"
    by (simp add: typedItems_def typeColumn_def)
  from d s dc c r t n i e a e1 show ?thesis by (intro conjI)
qed

section \<open>Properties of the encoders\<close>

subsection \<open>Determinism\<close>

text \<open>
  C5. Two runs of an encoder on the same table give the same bytes. The PHP encoder
  writes the metadata in the order in which \<open>range\<close> visits the map, which Go leaves
  open: for the table \<open>tagged\<close>, whose metadata has the keys \<open>a\<close> and \<open>b\<close>, both orders
  are possible and the two contents differ. The same loop fills the \<open>meta\<close> list of the
  FBS encoder's payload.
\<close>

theorem PHP_Convert_depends_on_range_order:
  "rangeOrder (sheet_Meta tagged) [''a'', ''b'']
   \<and> rangeOrder (sheet_Meta tagged) [''b'', ''a'']
   \<and> Content (PHP_Convert ff [''a'', ''b''] tagged) \<noteq> Content (PHP_Convert ff [''b'', ''a''] tagged)
   \<and> buildJSONMeta ff (sheet_Meta tagged) [''a'', ''b'']
       \<noteq> buildJSONMeta ff (sheet_Meta tagged) [''b'', ''a'']"
proof -
  have m: "sheet_Meta tagged = [''a'' \<mapsto> VInt 1, ''b'' \<mapsto> VInt 2]" by (simp add: tagged_def)
  have r1: "rangeOrder (sheet_Meta tagged) [''a'', ''b'']"
    unfolding m by (auto simp: rangeOrder_def)
  have r2: "rangeOrder (sheet_Meta tagged) [''b'', ''a'']"
    unfolding m by (auto simp: rangeOrder_def)
  have p: "phpMeta ff (sheet_Meta tagged) [''a'', ''b''] \<noteq> phpMeta ff (sheet_Meta tagged) [''b'', ''a'']"
    unfolding m by (simp add: phpMeta_def quoted_def)
  then have c: "Content (PHP_Convert ff [''a'', ''b''] tagged)
                  \<noteq> Content (PHP_Convert ff [''b'', ''a''] tagged)"
    by (simp add: PHP_Convert_def)
  have j: "buildJSONMeta ff (sheet_Meta tagged) [''a'', ''b'']
             \<noteq> buildJSONMeta ff (sheet_Meta tagged) [''b'', ''a'']"
    unfolding m by (simp add: buildJSONMeta_def)
  from r1 r2 c j show ?thesis by (intro conjI)
qed

lemma rangeOrder_empty: "rangeOrder Map.empty keys \<longleftrightarrow> keys = []"
  by (auto simp: rangeOrder_def)

section \<open>Properties of the orchestrator\<close>

subsection \<open>The staleness check\<close>

text \<open>
  What \<open>needProcess\<close> decides, in terms of the paths it looks at: the file is processed
  when its own time cannot be read, or when for some listed format that is enabled and
  is one of \<open>json\<close>, \<open>php\<close>, \<open>fbs\<close> the path \<open>name.json\<close>, \<open>name.php\<close> or
  \<open>name.bin\<close> under the format's output directory is missing or strictly older.
\<close>

lemma needProcessLoop_iff:
  "needProcessLoop stat cfg filePath fileModTime formats
     \<longleftrightarrow> (\<exists>format\<in>set formats. \<exists>convConfig name.
            GetConverterConfig (Some cfg) format = Some convConfig \<and> cc_Enabled convConfig
            \<and> outputFileName format (TrimSuffix (Base filePath) (Ext filePath)) = Some name
            \<and> (case stat (Join [outputDirOf cfg convConfig, name]) of
                  None \<Rightarrow> True
                | Some outputModTime \<Rightarrow> outputModTime < fileModTime))"
proof (induction formats)
  case Nil
  show ?case by simp
next
  case (Cons format formats)
  show ?case
  proof (cases "GetConverterConfig (Some cfg) format")
    case None
    then show ?thesis using Cons by simp
  next
    case (Some convConfig)
    note cc = Some
    show ?thesis
    proof (cases "cc_Enabled convConfig")
      case False
      then show ?thesis using Cons cc by simp
    next
      case True
      note en = True
      show ?thesis
      proof (cases "outputFileName format (TrimSuffix (Base filePath) (Ext filePath))")
        case None
        then show ?thesis using Cons cc en by simp
      next
        case (Some name)
        then show ?thesis
          using Cons cc en
          by (cases "stat (Join [outputDirOf cfg convConfig, name])") auto
      qed
    qed
  qed
qed

lemma Join_output_fbs: "Join [''output'', ''fbs''] = ''output/fbs''"
  by (simp add: Join_def Clean_def HasPrefix_def)

lemma Join_output_fbs_file: "Join [''output/fbs'', name] = Clean (''output/fbs/'' @ name)"
  by (simp add: Join_def)

text \<open>
  C9. With fast mode on, a file is skipped exactly when every enabled format's artifact
  exists and is not older than the file. On a machine without \<open>flatc\<close> the FBS encoder
  names its artifact \<open>items.fbs\<close>, and \<open>outputResults\<close> writes it to
  \<open>output/fbs/items.fbs\<close>; \<open>needProcess\<close> looks for \<open>output/fbs/items.bin\<close>. With
  \<open>fbs\<close> the only format, the source written at time 10 and the artifact at time 20,
  the file is processed again.
\<close>

theorem needProcess_misses_fbs_fallback_artifact:
  "FBS_Convert noFlatc items
     = Inr \<lparr>FileName = ''items.fbs'', Content = buildSchema items, Format = ''fbs''\<rparr>
   \<and> outputPathOf fbsOnly \<lparr>FileName = ''items.fbs'', Content = buildSchema items, Format = ''fbs''\<rparr>
       = Some ''output/fbs/items.fbs''
   \<and> needProcess [''data/items.csv'' \<mapsto> 10, ''output/fbs/items.fbs'' \<mapsto> 20] fbsOnly
        ''data/items.csv''"
proof -
  have a: "FBS_Convert noFlatc items
     = Inr \<lparr>FileName = ''items.fbs'', Content = buildSchema items, Format = ''fbs''\<rparr>"
    by (simp add: FBS_Convert_def noFlatc_def items_def)
  have g: "GetConverterConfig (Some fbsOnly) ''fbs'' = Some (enabledIn ''fbs'')"
    by (simp add: GetConverterConfig_def fbsOnly_def)
  have d: "outputDirOf fbsOnly (enabledIn ''fbs'') = ''output/fbs''"
    by (simp add: outputDirOf_def enabledIn_def fbsOnly_def Join_output_fbs)
  have b: "outputPathOf fbsOnly \<lparr>FileName = ''items.fbs'', Content = buildSchema items, Format = ''fbs''\<rparr>
       = Some ''output/fbs/items.fbs''"
    by (simp add: outputPathOf_def g d Join_output_fbs_file Clean_def HasPrefix_def)
  have n: "TrimSuffix (Base ''data/items.csv'') (Ext ''data/items.csv'') = ''items''"
    by (simp add: Base_def Ext_def TrimSuffix_def HasSuffix_def)
  have j: "Join [''output/fbs'', ''items.bin''] = ''output/fbs/items.bin''"
    by (simp add: Join_output_fbs_file Clean_def HasPrefix_def)
  have c: "needProcess [''data/items.csv'' \<mapsto> 10, ''output/fbs/items.fbs'' \<mapsto> 20] fbsOnly
        ''data/items.csv''"
    by (simp add: needProcess_def fbsOnly_def [THEN arg_cong, of Formats] g d n j
          outputFileName_def enabledIn_def [THEN arg_cong, of cc_Enabled])
  from a b c show ?thesis by (intro conjI)
qed

subsection \<open>Formats without an encoder\<close>

lemma GetConverter_known:
  "GetConverter NewConverterFactory format
     = (if format = ''fbs'' then Some (FBSConverter Map.empty)
        else if format = ''php'' then Some (PHPConverter Map.empty)
        else if format = ''json'' then Some (JSONConverter Map.empty)
        else None)"
  by (simp add: GetConverter_def NewConverterFactory_def RegisterConverter_def GetFormat_def)

lemma CreateConverter_unknown:
  "format \<noteq> ''json'' \<Longrightarrow> format \<noteq> ''php'' \<Longrightarrow> format \<noteq> ''fbs'' \<Longrightarrow>
   CreateConverter NewConverterFactory format config = (None, None)"
  by (simp add: CreateConverter_def GetConverter_known)

lemma convertLoop_append:
  "convertLoop rt cfg sheets (pre @ post) results
     = (case convertLoop rt cfg sheets pre results of
          Inl f \<Rightarrow> Inl f
        | Inr r \<Rightarrow> convertLoop rt cfg sheets post r)"
proof (induction pre arbitrary: results)
  case Nil
  show ?case by simp
next
  case (Cons format pre)
  show ?case
  proof (cases "GetConverterConfig (Some cfg) format")
    case None
    then show ?thesis using Cons by simp
  next
    case (Some convConfig)
    note cc = Some
    show ?thesis
    proof (cases "cc_Enabled convConfig")
      case False
      then show ?thesis using Cons cc by simp
    next
      case True
      note en = True
      obtain conv err where
        c: "CreateConverter NewConverterFactory format (cc_Options convConfig) = (conv, err)"
        by (cases "CreateConverter NewConverterFactory format (cc_Options convConfig)")
      show ?thesis
      proof (cases conv)
        case None
        then show ?thesis using cc en c by (cases err) simp_all
      next
        case (Some cv)
        note some = Some
        show ?thesis
        proof (cases err)
          case (Some e)
          then show ?thesis using cc en c some by simp
        next
          case None
          then show ?thesis
            using cc en c some Cons
            by (cases "BatchConvert rt cv sheets") simp_all
        qed
      qed
    qed
  qed
qed

text \<open>
  C10, as the code has it. For a format other than \<open>json\<close>, \<open>php\<close> and \<open>fbs\<close> the
  factory returns the nil converter with the nil error. When the configuration lists
  such a format with an enabled entry, the unit of work that the asynchronous path
  starts for it calls \<open>BatchConvert\<close> on the nil converter, and so does the synchronous
  path once the formats listed before it have been converted without an error; no
  branch turns the nil converter into an error.
\<close>

theorem unknown_format_nil_converter:
  assumes "format \<noteq> ''json''" and "format \<noteq> ''php''" and "format \<noteq> ''fbs''"
  shows "CreateConverter NewConverterFactory format config = (None, None)
       \<and> (\<forall>convConfig. GetConverterConfig (Some cfg) format = Some convConfig
                          \<and> cc_Enabled convConfig \<longrightarrow>
            asyncUnit rt cfg sheets format = Inl NilDereference
            \<and> (\<forall>pre post results.
                  Formats cfg = pre @ format # post
                  \<and> convertLoop rt cfg sheets pre [] = Inr results
                  \<longrightarrow> convertData rt cfg sheets = Inl (Panic NilDereference)))"
proof (intro conjI allI impI)
  show "CreateConverter NewConverterFactory format config = (None, None)"
    using assms by (rule CreateConverter_unknown)
next
  fix convConfig
  assume a: "GetConverterConfig (Some cfg) format = Some convConfig \<and> cc_Enabled convConfig"
  have c: "CreateConverter NewConverterFactory format (cc_Options convConfig) = (None, None)"
    using assms by (rule CreateConverter_unknown)
  show "asyncUnit rt cfg sheets format = Inl NilDereference"
    using a c by (simp add: asyncUnit_def)
  fix pre post results
  assume b: "Formats cfg = pre @ format # post \<and> convertLoop rt cfg sheets pre [] = Inr results"
  have "convertLoop rt cfg sheets (format # post) results = Inl (Panic NilDereference)"
    using a c by simp
  then show "convertData rt cfg sheets = Inl (Panic NilDereference)"
    using b by (simp add: convertData_def convertLoop_append)
qed

lemma GetConverterConfig_phpThenXml:
  "GetConverterConfig (Some phpThenXml) ''php'' = Some (enabledIn ''php'')"
  "GetConverterConfig (Some phpThenXml) ''xml'' = Some (enabledIn ''xml'')"
  by (simp_all add: GetConverterConfig_def phpThenXml_def)

lemma GetConverterConfig_fbsThenXml:
  "GetConverterConfig (Some fbsThenXml) ''fbs'' = Some (enabledIn ''fbs'')"
  "GetConverterConfig (Some fbsThenXml) ''xml'' = Some (enabledIn ''xml'')"
  by (simp_all add: GetConverterConfig_def fbsThenXml_def)

lemma enabledIn_fields: "cc_Enabled (enabledIn dir)" "cc_Options (enabledIn dir) = Map.empty"
  by (simp_all add: enabledIn_def)

lemma CreateConverter_php:
  "CreateConverter NewConverterFactory ''php'' config = (Some (PHPConverter config), None)"
  by (simp add: CreateConverter_def GetConverter_known)

lemma CreateConverter_fbs:
  "CreateConverter NewConverterFactory ''fbs'' config = (Some (FBSConverter config), None)"
  by (simp add: CreateConverter_def GetConverter_known)

theorem unknown_format_nil_converter_witness:
  "GetConverterConfig (Some phpThenXml) ''xml'' = Some (enabledIn ''xml'')
   \<and> cc_Enabled (enabledIn ''xml'')
   \<and> Formats phpThenXml = [''php''] @ ''xml'' # []
   \<and> convertLoop (plainRuntime noFlatc) phpThenXml [items] [''php''] []
       = Inr [PHP_Convert noFormat [] items]
   \<and> CreateConverter NewConverterFactory ''xml'' Map.empty = (None, None)
   \<and> asyncUnit (plainRuntime noFlatc) phpThenXml [items] ''xml'' = Inl NilDereference
   \<and> convertData (plainRuntime noFlatc) phpThenXml [items] = Inl (Panic NilDereference)"
proof -
  have x: "''xml'' \<noteq> ''json''" "''xml'' \<noteq> ''php''" "''xml'' \<noteq> ''fbs''" by simp_all
  have g: "GetConverterConfig (Some phpThenXml) ''xml'' = Some (enabledIn ''xml'')"
    by (rule GetConverterConfig_phpThenXml)
  have e: "cc_Enabled (enabledIn ''xml'')" by (rule enabledIn_fields)
  have f: "Formats phpThenXml = [''php''] @ ''xml'' # []" by (simp add: phpThenXml_def)
  have l: "convertLoop (plainRuntime noFlatc) phpThenXml [items] [''php''] []
             = Inr [PHP_Convert noFormat [] items]"
    by (simp add: GetConverterConfig_phpThenXml enabledIn_fields CreateConverter_php
          BatchConvert_def Convert_def plainRuntime_def)
  note t = unknown_format_nil_converter [OF x, of Map.empty phpThenXml "plainRuntime noFlatc" "[items]"]
  from t have c: "CreateConverter NewConverterFactory ''xml'' Map.empty = (None, None)"
    by (rule conjunct1)
  from t g e have a: "asyncUnit (plainRuntime noFlatc) phpThenXml [items] ''xml'' = Inl NilDereference"
    by blast
  from t g e f l have s: "convertData (plainRuntime noFlatc) phpThenXml [items]
                            = Inl (Panic NilDereference)"
    by blast
  from g e f l c a s show ?thesis by (intro conjI)
qed

text \<open>
  The claim as the spec words it fails on the synchronous path when a format listed
  before the unknown one fails: here \<open>xml\<close> is listed with an enabled entry, but the
  temporary directory cannot be written, the FBS encoder returns that error, and
  \<open>convertData\<close> returns it without reaching \<open>xml\<close>.
\<close>

theorem earlier_failure_counterexample:
  "''xml'' \<in> set (Formats fbsThenXml)
   \<and> GetConverterConfig (Some fbsThenXml) ''xml'' = Some (enabledIn ''xml'')
   \<and> cc_Enabled (enabledIn ''xml'')
   \<and> convertData (plainRuntime noTemp) fbsThenXml [items] = Inl (Error (ErrIO ''write''))"
proof -
  have f: "''xml'' \<in> set (Formats fbsThenXml)" by (simp add: fbsThenXml_def)
  have c: "convertData (plainRuntime noTemp) fbsThenXml [items] = Inl (Error (ErrIO ''write''))"
    by (simp add: convertData_def fbsThenXml_def [THEN arg_cong, of Formats]
          GetConverterConfig_fbsThenXml enabledIn_fields CreateConverter_fbs
          BatchConvert_def Convert_def plainRuntime_def FBS_Convert_def noTemp_def)
  from f GetConverterConfig_fbsThenXml(2) enabledIn_fields(1) [of "''xml''"] c
  show ?thesis by (intro conjI)
qed

end
